theory Spec2Isabelle
  imports Complex_Main
begin

section \<open>TAOplicate: the copy-trading loop of taoplicate.py\<close>

text \<open>
  The development embeds the main loop of \<^verbatim>\<open>run\<close>, the executor
  \<^verbatim>\<open>mirror_stake\<close>, the balance query, the summary report and the part of
  \<^verbatim>\<open>setup\<close> that writes the configuration.

  Conventions of the embedding.
  \<^item> Python floats are read as \<^typ>\<open>real\<close>: rounding, infinities and NaN are outside
    the model. The literal \<^verbatim>\<open>1e-9\<close> is \<open>1 / 10 ^ 9\<close>.
  \<^item> Everything the program does to the outside world is a field of the state: the
    rows of the \<^verbatim>\<open>trades\<close> table, the commands handed to
    \<^verbatim>\<open>subprocess.Popen\<close>, the messages posted to a webhook and the lines of the
    log. A line or a message is kept as the call and its arguments; its rendering as
    text (f-strings, \<^verbatim>\<open>.4f\<close>, \<^verbatim>\<open>strip\<close>) is not modelled. Time stamps are left out.
  \<^item> What the outside world answers is an argument: the result of each run of the
    external tool (\<open>tool_result\<close>), the metagraph of a subnet, the events taken from
    the queue.
  \<^item> An exception is a value: a step that raises returns \<open>Raised e s\<close>, with the state
    as the statements before the raise left it. The exceptions modelled are the
    IndexError of \<^verbatim>\<open>cfg["weights"][i]\<close> and \<^verbatim>\<open>mg.stake[idx]\<close> and the ValueError of
    \<^verbatim>\<open>float(cfg["fixed_amount"])\<close>; a configuration lacking a key, a failing network
    client or database, and a webhook that cannot be reached are not.
  \<^item> The main loop is modelled as it runs on its own thread. The listener thread shows
    only as the events found in the queue, the scheduler thread only as one firing of
    the report (\<open>summary_fire\<close>); what those threads log by themselves is left out.
\<close>

subsection \<open>Data\<close>

datatype action = Add | Remove

datatype py_error = IndexError | ValueError

text \<open>
  The configuration dictionary written by \<^verbatim>\<open>setup\<close>. \<open>fixed_amount\<close> is a string
  in the file and is read with \<^verbatim>\<open>float(cfg["fixed_amount"])\<close> at every use: the field
  holds that reading, \<open>None\<close> when \<^verbatim>\<open>float\<close> raises ValueError. A webhook that is
  missing and one that is the empty string are both falsy and both \<open>[]\<close> here.
\<close>

record config =
  network :: string
  my_wallet :: string
  fixed_amount :: "real option"
  hotkeys :: "string list"
  weights :: "real list"
  poll_seconds :: int
  trade_mode :: string
  live_webhook :: string
  summary_webhook :: string
  low_balance :: real
  resume_balance :: real
  btcli_path :: string

text \<open>
  The two command lines the program builds: \<^verbatim>\<open>btcli w balance --all\<close> (path, wallet,
  network) and \<^verbatim>\<open>btcli stake add|remove\<close> (path, action, netuid, wallet, amount,
  network).
\<close>

datatype cmd =
  BalanceCmd string string string
| StakeCmd string action nat string real string

text \<open>
  How a run of the external tool ends, as \<^verbatim>\<open>run_btcli\<close> tells the cases apart: the
  process exits (return code, stdout, stderr), \<^verbatim>\<open>communicate\<close> times out, or
  \<^verbatim>\<open>Popen\<close> raises FileNotFoundError.
\<close>

datatype tool_result =
  Exited int string string
| TimedOut
| NotFound

datatype log_entry =
  LogCmd cmd
| LogOut string
| LogTimedOut
| LogNotFound
| LogFetching
| LogTrade action real nat string real
| LogDryRun action real nat string
| LogLoopError py_error
| LogRunSetupFirst
| LogSummaryNow

datatype trend = NoChange | Up real | Down real

record report =
  rep_trades :: nat
  rep_subnets :: nat
  rep_add :: real
  rep_rem :: real
  rep_net :: real
  rep_balance :: real
  rep_trend :: trend

datatype notice =
  TradeEmbed action nat string real real
| PausedNote real real
| ResumedNote real real
| ErrorNote py_error
| SummaryEmbed report
| SummaryScheduleNote

text \<open>A row of the \<^verbatim>\<open>trades\<close> table (without its id and time stamp).\<close>

record trade_row =
  t_action :: action
  t_netuid :: nat
  t_hotkey :: string
  t_amount :: real
  t_delta :: real
  t_balance :: real

record summary_window =
  trades :: nat
  add_tao :: real
  rem_tao :: real
  subnets :: "nat set"

type_synonym baseline = "nat \<rightharpoonup> (string \<rightharpoonup> real)"

text \<open>
  The state of a run. \<open>last_stakes\<close> is \<^verbatim>\<open>state["last_stakes"]\<close> (the key
  \<^verbatim>\<open>str(netuid)\<close> is kept as the number), \<open>paused\<close> and \<open>summary\<close> are the local
  variables of \<^verbatim>\<open>run\<close>. \<open>state_file\<close> is what \<^verbatim>\<open>save_json(STATE_PATH, state)\<close>
  wrote last, \<open>trend_file\<close> the balance stored in \<^verbatim>\<open>last_balance.json\<close> (\<open>None\<close>
  when the file is missing, unreadable or has no balance), \<open>db\<close> the rows of the
  table, \<open>invocations\<close> the commands given to the tool, \<open>notifications\<close> the messages
  posted, \<open>logfile\<close> the lines logged.
\<close>

record state =
  last_stakes :: baseline
  paused :: bool
  summary :: summary_window
  state_file :: baseline
  trend_file :: "real option"
  db :: "trade_row list"
  invocations :: "cmd list"
  notifications :: "notice list"
  logfile :: "log_entry list"

datatype outcome = Done state | Raised py_error state

fun state_of :: "outcome \<Rightarrow> state" where
  "state_of (Done s) = s"
| "state_of (Raised e s) = s"

record metagraph =
  mg_hotkeys :: "string list"
  mg_stake :: "real list"

type_synonym event = "action \<times> nat \<times> string \<times> real"

text \<open>The answers of the tool to the balance query and to the stake command of one step.\<close>

type_synonym replies = "tool_result \<times> tool_result"

subsection \<open>Utilities, notifications, the external tool\<close>

text \<open>\<^verbatim>\<open>list.index\<close>, called only on a member of the list.\<close>

fun index_of :: "'a list \<Rightarrow> 'a \<Rightarrow> nat" where
  "index_of [] x = 0"
| "index_of (y # ys) x = (if y = x then 0 else Suc (index_of ys x))"

definition log_msg :: "log_entry \<Rightarrow> state \<Rightarrow> state" where
  "log_msg l s = s\<lparr>logfile := logfile s @ [l]\<rparr>"

definition post_embed :: "string \<Rightarrow> notice \<Rightarrow> state \<Rightarrow> state" where
  "post_embed webhook emb s =
     (if webhook = [] then s else s\<lparr>notifications := notifications s @ [emb]\<rparr>)"

definition notify_text :: "string \<Rightarrow> notice \<Rightarrow> state \<Rightarrow> state" where
  "notify_text webhook content s =
     (if webhook = [] then s else s\<lparr>notifications := notifications s @ [content]\<rparr>)"

definition send_trade_embed ::
  "config \<Rightarrow> action \<Rightarrow> nat \<Rightarrow> string \<Rightarrow> real \<Rightarrow> real \<Rightarrow> state \<Rightarrow> state" where
  "send_trade_embed cfg act netuid hk amount delta s =
     (if live_webhook cfg = [] then s
      else post_embed (live_webhook cfg) (TradeEmbed act netuid hk amount delta) s)"

text \<open>
  \<^verbatim>\<open>run_btcli\<close>: logs the command, runs it, logs what it printed, and returns
  (return code, stdout, stderr); 124 stands for a timeout and 127 for a missing tool.
\<close>

fun run_btcli :: "cmd \<Rightarrow> tool_result \<Rightarrow> state \<Rightarrow> (int \<times> string \<times> string) \<times> state" where
  "run_btcli c (Exited rc out err) s =
     ((rc, out, err),
      s\<lparr>invocations := invocations s @ [c],
        logfile := logfile s @ [LogCmd c]
          @ (if out = [] then [] else [LogOut out])
          @ (if err = [] then [] else [LogOut err])\<rparr>)"
| "run_btcli c TimedOut s =
     ((124, [], ''timeout''),
      s\<lparr>invocations := invocations s @ [c],
        logfile := logfile s @ [LogCmd c, LogTimedOut]\<rparr>)"
| "run_btcli c NotFound s =
     ((127, [], ''not found''),
      s\<lparr>invocations := invocations s @ [c],
        logfile := logfile s @ [LogCmd c, LogNotFound]\<rparr>)"

text \<open>
  \<^verbatim>\<open>get_wallet_balance_via_btcli\<close>. The search of the output for a number (the first
  float on a line with Total and Balance, else the first decimal, else 0.0) is the
  parameter \<open>pb\<close>; empty output gives 0.0 before any search.
\<close>

definition get_wallet_balance_via_btcli ::
  "(string \<Rightarrow> real) \<Rightarrow> config \<Rightarrow> tool_result \<Rightarrow> state \<Rightarrow> real \<times> state" where
  "get_wallet_balance_via_btcli pb cfg r s =
     (case run_btcli (BalanceCmd (btcli_path cfg) (my_wallet cfg) (network cfg)) r
             (log_msg LogFetching s) of
        ((rc, out, err), s') \<Rightarrow> (if out = [] then 0 else pb out, s'))"

subsection \<open>The executor\<close>

definition mirror_stake ::
  "action \<Rightarrow> nat \<Rightarrow> config \<Rightarrow> real \<Rightarrow> string \<Rightarrow> real \<Rightarrow> tool_result \<Rightarrow> state \<Rightarrow> state" where
  "mirror_stake act netuid cfg amount hk delta r s =
     (if amount \<le> 0 then s
      else
        (case run_btcli (StakeCmd (btcli_path cfg) act netuid (my_wallet cfg) amount (network cfg)) r s of
           ((rc, out, err), s1) \<Rightarrow>
             (let s2 = log_msg (LogTrade act amount netuid hk delta) s1;
                  s3 = send_trade_embed cfg act netuid hk amount delta s2;
                  w = summary s3;
                  w1 = w\<lparr>trades := trades w + 1, subnets := insert netuid (subnets w)\<rparr>;
                  w2 = (if act = Add then w1\<lparr>add_tao := add_tao w1 + amount\<rparr>
                        else w1\<lparr>rem_tao := rem_tao w1 + amount\<rparr>)
              in s3\<lparr>summary := w2\<rparr>)))"

definition log_trade_to_db ::
  "action \<Rightarrow> nat \<Rightarrow> string \<Rightarrow> real \<Rightarrow> real \<Rightarrow> real \<Rightarrow> state \<Rightarrow> state" where
  "log_trade_to_db act netuid hk amount delta balance s =
     s\<lparr>db := db s @ [\<lparr>t_action = act, t_netuid = netuid, t_hotkey = hk,
                         t_amount = amount, t_delta = delta, t_balance = balance\<rparr>]\<rparr>"

subsection \<open>Sizing and the pause switch\<close>

text \<open>
  The amount of a trade (lines 348 and 389 of \<^verbatim>\<open>run\<close>):
  \<^verbatim>\<open>float(cfg["fixed_amount"]) if cfg["trade_mode"] == "fixed" else abs(delta) * weight\<close>.
\<close>

definition sizing :: "config \<Rightarrow> real \<Rightarrow> real \<Rightarrow> py_error + real" where
  "sizing cfg delta weight =
     (if trade_mode cfg = ''fixed''
      then (case fixed_amount cfg of None \<Rightarrow> Inl ValueError | Some a \<Rightarrow> Inr a)
      else Inr (\<bar>delta\<bar> * weight))"

text \<open>The action the poll channel gives a delta (lines 403 and 405 to 410).\<close>

definition poll_action :: "real \<Rightarrow> action" where
  "poll_action delta = (if delta > 0 then Add else Remove)"

text \<open>
  The safety block (lines 352 to 360, and again 392 to 400): it may pause, it may
  resume, and it says whether the step goes on (\<open>False\<close> is the \<^verbatim>\<open>continue\<close>).
\<close>

definition safety :: "config \<Rightarrow> real \<Rightarrow> state \<Rightarrow> bool \<times> state" where
  "safety cfg current_balance s =
     (let s1 = (if \<not> paused s \<and> current_balance < low_balance cfg
                then notify_text (live_webhook cfg)
                       (PausedNote current_balance (low_balance cfg)) (s\<lparr>paused := True\<rparr>)
                else s)
      in if paused s1
         then (if current_balance \<ge> resume_balance cfg
               then (True, notify_text (live_webhook cfg)
                       (ResumedNote current_balance (resume_balance cfg)) (s1\<lparr>paused := False\<rparr>))
               else (False, s1))
         else (True, s1))"

text \<open>
  From the weight to the trade: lines 347 to 366 for an event of the queue and lines
  388 to 410 for a polled delta run the same statements, with \<open>i\<close> the index of the
  hotkey in the configuration and \<open>act\<close> the action of the event, or \<open>poll_action\<close>
  of the delta.
\<close>

definition mirror_delta ::
  "(string \<Rightarrow> real) \<Rightarrow> config \<Rightarrow> bool \<Rightarrow> action \<Rightarrow> nat \<Rightarrow> nat \<Rightarrow> string \<Rightarrow> real
     \<Rightarrow> replies \<Rightarrow> state \<Rightarrow> outcome" where
  "mirror_delta pb cfg dry_run act netuid i hk delta rp s =
     (if length (weights cfg) \<le> i then Raised IndexError s
      else
        (case sizing cfg delta (weights cfg ! i) of
           Inl e \<Rightarrow> Raised e s
         | Inr amount \<Rightarrow>
             (case get_wallet_balance_via_btcli pb cfg (fst rp) s of
                (current_balance, s1) \<Rightarrow>
                  (case safety cfg current_balance s1 of
                     (go, s2) \<Rightarrow>
                       if \<not> go then Done s2
                       else if dry_run then Done (log_msg (LogDryRun act amount netuid hk) s2)
                       else Done (log_trade_to_db act netuid hk amount delta current_balance
                                    (mirror_stake act netuid cfg amount hk delta (snd rp) s2))))))"

subsection \<open>The two channels\<close>

text \<open>One event of the queue (lines 343 to 366).\<close>

definition process_event ::
  "(string \<Rightarrow> real) \<Rightarrow> config \<Rightarrow> bool \<Rightarrow> event \<Rightarrow> replies \<Rightarrow> state \<Rightarrow> outcome" where
  "process_event pb cfg dry_run ev rp s =
     (case ev of (act, netuid, hk, delta) \<Rightarrow>
        if hk \<notin> set (hotkeys cfg) then Done s
        else mirror_delta pb cfg dry_run act netuid (index_of (hotkeys cfg) hk) hk delta rp s)"

text \<open>
  One watched hotkey of one subnet in the polling pass (lines 375 to 410); \<open>i\<close> and
  \<open>hk\<close> come from \<^verbatim>\<open>enumerate(cfg["hotkeys"])\<close>.
\<close>

definition poll_hotkey ::
  "(string \<Rightarrow> real) \<Rightarrow> config \<Rightarrow> bool \<Rightarrow> nat \<Rightarrow> metagraph \<Rightarrow> nat \<Rightarrow> string
     \<Rightarrow> replies \<Rightarrow> state \<Rightarrow> outcome" where
  "poll_hotkey pb cfg dry_run netuid mg i hk rp s =
     (if hk \<notin> set (mg_hotkeys mg) then Done s
      else
        (let idx = index_of (mg_hotkeys mg) hk in
         if length (mg_stake mg) \<le> idx then Raised IndexError s
         else
           (let stake_val = mg_stake mg ! idx;
                inner = (case last_stakes s netuid of None \<Rightarrow> Map.empty | Some m \<Rightarrow> m);
                last = inner hk;
                s1 = s\<lparr>last_stakes := (last_stakes s)(netuid \<mapsto> inner(hk \<mapsto> stake_val))\<rparr>
            in case last of
                 None \<Rightarrow> Done s1
               | Some l \<Rightarrow>
                   (let delta = stake_val - l in
                    if \<bar>delta\<bar> < 1 / 10 ^ 9 then Done s1
                    else mirror_delta pb cfg dry_run (poll_action delta) netuid i hk delta rp s1))))"

subsection \<open>The loop of run\<close>

text \<open>
  The handler of the loop (lines 414 to 416): an exception raised anywhere in the body
  is logged and reported, and the rest of the body is skipped.
\<close>

definition loop_error :: "config \<Rightarrow> py_error \<Rightarrow> state \<Rightarrow> state" where
  "loop_error cfg e s = notify_text (live_webhook cfg) (ErrorNote e) (log_msg (LogLoopError e) s)"

text \<open>\<^verbatim>\<open>while not event_queue.empty()\<close>: the events taken from the queue, in order.\<close>

fun drain_events ::
  "(string \<Rightarrow> real) \<Rightarrow> config \<Rightarrow> bool \<Rightarrow> (event \<times> replies) list \<Rightarrow> state \<Rightarrow> outcome" where
  "drain_events pb cfg dry_run [] s = Done s"
| "drain_events pb cfg dry_run ((ev, rp) # rest) s =
     (case process_event pb cfg dry_run ev rp s of
        Raised e s' \<Rightarrow> Raised e s'
      | Done s' \<Rightarrow> drain_events pb cfg dry_run rest s')"

text \<open>
  \<^verbatim>\<open>for i, hk in enumerate(cfg["hotkeys"])\<close> on one subnet; \<open>rps i\<close> are the answers
  of the tool to the queries made for the hotkey of index \<open>i\<close>.
\<close>

fun poll_hotkeys ::
  "(string \<Rightarrow> real) \<Rightarrow> config \<Rightarrow> bool \<Rightarrow> nat \<Rightarrow> metagraph \<Rightarrow> (nat \<Rightarrow> replies)
     \<Rightarrow> (nat \<times> string) list \<Rightarrow> state \<Rightarrow> outcome" where
  "poll_hotkeys pb cfg dry_run netuid mg rps [] s = Done s"
| "poll_hotkeys pb cfg dry_run netuid mg rps ((i, hk) # rest) s =
     (case poll_hotkey pb cfg dry_run netuid mg i hk (rps i) s of
        Raised e s' \<Rightarrow> Raised e s'
      | Done s' \<Rightarrow> poll_hotkeys pb cfg dry_run netuid mg rps rest s')"

text \<open>\<^verbatim>\<open>for netuid in range(n_subnets)\<close>, with the metagraph of each subnet.\<close>

fun poll_subnets ::
  "(string \<Rightarrow> real) \<Rightarrow> config \<Rightarrow> bool \<Rightarrow> (nat \<Rightarrow> metagraph) \<Rightarrow> (nat \<Rightarrow> nat \<Rightarrow> replies)
     \<Rightarrow> nat list \<Rightarrow> state \<Rightarrow> outcome" where
  "poll_subnets pb cfg dry_run mgs rps [] s = Done s"
| "poll_subnets pb cfg dry_run mgs rps (netuid # rest) s =
     (if mg_hotkeys (mgs netuid) = [] then poll_subnets pb cfg dry_run mgs rps rest s
      else
        (case poll_hotkeys pb cfg dry_run netuid (mgs netuid) (rps netuid)
                (enumerate 0 (hotkeys cfg)) s of
           Raised e s' \<Rightarrow> Raised e s'
         | Done s' \<Rightarrow> poll_subnets pb cfg dry_run mgs rps rest s'))"

text \<open>
  What one round of \<^verbatim>\<open>while True\<close> meets: the events in the queue, the number of
  subnets, their metagraphs, and the answers of the tool.
\<close>

record round_input =
  events :: "(event \<times> replies) list"
  subnet_count :: nat
  metagraphs :: "nat \<Rightarrow> metagraph"
  poll_replies :: "nat \<Rightarrow> nat \<Rightarrow> replies"

text \<open>One round of \<^verbatim>\<open>while True\<close> (lines 340 to 416).\<close>

definition iteration ::
  "(string \<Rightarrow> real) \<Rightarrow> config \<Rightarrow> bool \<Rightarrow> round_input \<Rightarrow> state \<Rightarrow> state" where
  "iteration pb cfg dry_run inp s =
     (case drain_events pb cfg dry_run (events inp) s of
        Raised e s1 \<Rightarrow> loop_error cfg e s1
      | Done s1 \<Rightarrow>
          (case poll_subnets pb cfg dry_run (metagraphs inp) (poll_replies inp)
                  [0 ..< subnet_count inp] s1 of
             Raised e s2 \<Rightarrow> loop_error cfg e s2
           | Done s2 \<Rightarrow> s2\<lparr>state_file := last_stakes s2\<rparr>))"

text \<open>The first rounds of the loop, one input for each.\<close>

fun run_loop ::
  "(string \<Rightarrow> real) \<Rightarrow> config \<Rightarrow> bool \<Rightarrow> round_input list \<Rightarrow> state \<Rightarrow> state" where
  "run_loop pb cfg dry_run [] s = s"
| "run_loop pb cfg dry_run (inp # rest) s =
     run_loop pb cfg dry_run rest (iteration pb cfg dry_run inp s)"

subsection \<open>The summary report\<close>

definition trend_of :: "real \<Rightarrow> trend" where
  "trend_of delta_bal =
     (if \<bar>delta_bal\<bar> < 1 / 10 ^ 9 then NoChange
      else if delta_bal > 0 then Up delta_bal
      else Down delta_bal)"

definition send_summary_embed ::
  "(string \<Rightarrow> real) \<Rightarrow> config \<Rightarrow> summary_window \<Rightarrow> tool_result \<Rightarrow> state \<Rightarrow> state" where
  "send_summary_embed pb cfg w r s =
     (if summary_webhook cfg = [] then s
      else
        (case get_wallet_balance_via_btcli pb cfg r s of
           (total_balance, s1) \<Rightarrow>
             (let total_add = add_tao w;
                  total_rem = rem_tao w;
                  net = total_add - total_rem;
                  last_balance = (case trend_file s1 of None \<Rightarrow> 0 | Some b \<Rightarrow> b);
                  delta_bal = total_balance - last_balance;
                  s2 = s1\<lparr>trend_file := Some total_balance\<rparr>
              in post_embed (summary_webhook cfg)
                   (SummaryEmbed \<lparr>rep_trades = trades w, rep_subnets = card (subnets w),
                      rep_add = total_add, rep_rem = total_rem, rep_net = net,
                      rep_balance = total_balance, rep_trend = trend_of delta_bal\<rparr>) s2)))"

definition empty_summary :: summary_window where
  "empty_summary = \<lparr>trades = 0, add_tao = 0, rem_tao = 0, subnets = {}\<rparr>"

text \<open>One firing of \<^verbatim>\<open>summary_scheduler\<close>: the report, then the reset.\<close>

definition summary_fire :: "(string \<Rightarrow> real) \<Rightarrow> config \<Rightarrow> tool_result \<Rightarrow> state \<Rightarrow> state" where
  "summary_fire pb cfg r s = (send_summary_embed pb cfg (summary s) r s)\<lparr>summary := empty_summary\<rparr>"

subsection \<open>Setup and the start of run\<close>

text \<open>
  The answers given to \<^verbatim>\<open>setup\<close>, as \<^verbatim>\<open>strip\<close>, \<^verbatim>\<open>lower\<close>, \<^verbatim>\<open>split\<close>,
  \<^verbatim>\<open>int\<close> and \<^verbatim>\<open>float\<close> read them; \<open>None\<close> is the empty answer, which takes the
  default. \<open>in_amt\<close> is the reading of the amount by \<^verbatim>\<open>float\<close> (the file keeps the
  string), \<open>in_which\<close> the result of \<^verbatim>\<open>shutil.which("btcli")\<close>.
\<close>

record wizard =
  in_network :: string
  in_wallet :: string
  in_amt :: "real option"
  in_hotkeys :: "(string \<times> real option) list"
  in_poll :: "int option"
  in_mode :: string
  in_live :: string
  in_summary :: string
  in_low :: "real option"
  in_resume :: "real option"
  in_which :: "string option"

text \<open>
  The configuration \<^verbatim>\<open>setup\<close> saves (lines 270 to 302); the constant is named
  \<open>setup_config\<close> because the bare name is a command of the prover. An answer that
  \<^verbatim>\<open>int\<close> or \<^verbatim>\<open>float\<close> rejects makes \<^verbatim>\<open>setup\<close> raise before anything is saved;
  the record holds answers that were read.
\<close>

definition setup_config :: "wizard \<Rightarrow> config" where
  "setup_config w =
     \<lparr>network = (if in_network w = [] then ''finney'' else in_network w),
      my_wallet = in_wallet w,
      fixed_amount = in_amt w,
      hotkeys = map fst (in_hotkeys w),
      weights = map (\<lambda>p. case snd p of None \<Rightarrow> 1 | Some x \<Rightarrow> x) (in_hotkeys w),
      poll_seconds = (case in_poll w of None \<Rightarrow> 30 | Some n \<Rightarrow> n),
      trade_mode = (if in_mode w = [] then ''fixed'' else in_mode w),
      live_webhook = in_live w,
      summary_webhook = in_summary w,
      low_balance = (case in_low w of None \<Rightarrow> 1 | Some x \<Rightarrow> x),
      resume_balance = (case in_resume w of None \<Rightarrow> 2 | Some x \<Rightarrow> x),
      btcli_path = (case in_which w of None \<Rightarrow> ''btcli'' | Some p \<Rightarrow> p)\<rparr>"

text \<open>
  The start of \<^verbatim>\<open>run\<close> (lines 312 to 335). \<open>cfg_file\<close> is the configuration file
  (\<open>None\<close> when it is missing, unreadable or empty) and \<open>disk\<close> holds the files found
  at the start. The result says whether the loop is entered, which is the only check
  the configuration goes through.
\<close>

definition run_start ::
  "(string \<Rightarrow> real) \<Rightarrow> config option \<Rightarrow> bool \<Rightarrow> tool_result \<Rightarrow> state \<Rightarrow> bool \<times> state" where
  "run_start pb cfg_file summary_now r disk =
     (case cfg_file of
        None \<Rightarrow> (False, log_msg LogRunSetupFirst disk)
      | Some cfg \<Rightarrow>
          (let s0 = disk\<lparr>last_stakes := state_file disk, paused := False,
                         summary := empty_summary\<rparr>;
               s1 = (if summary_webhook cfg = [] then s0
                     else notify_text (summary_webhook cfg) SummaryScheduleNote s0);
               s2 = (if summary_now
                     then send_summary_embed pb cfg (summary s1) r (log_msg LogSummaryNow s1)
                     else s1)
           in (True, s2)))"

subsection \<open>What a state shows of the trades made\<close>

fun is_stake :: "cmd \<Rightarrow> bool" where
  "is_stake (StakeCmd p a n w x nw) = True"
| "is_stake (BalanceCmd p w nw) = False"

fun is_trade_notice :: "notice \<Rightarrow> bool" where
  "is_trade_notice (TradeEmbed a n hk x d) = True"
| "is_trade_notice m = False"

text \<open>
  The trace of executed trades: the rows of the table, the stake commands given to
  the tool, the trade notifications and the counters of the summary.
\<close>

definition trade_trace ::
  "state \<Rightarrow> trade_row list \<times> cmd list \<times> notice list \<times> summary_window" where
  "trade_trace s =
     (db s, filter is_stake (invocations s), filter is_trade_notice (notifications s), summary s)"

subsection \<open>Reading the balance query and the pause switch\<close>

text \<open>
  Two abbreviations used to state the properties; \<open>balance_value\<close> and \<open>safety_go\<close>
  below show that they are what the program computes. \<open>queried_balance pb r\<close> is the
  balance \<^verbatim>\<open>get_wallet_balance_via_btcli\<close> returns when the tool answers \<open>r\<close>, and
  \<open>approves cfg p bal\<close> says whether the safety block lets a step go on when \<open>paused\<close>
  was \<open>p\<close> on entry and the balance is \<open>bal\<close>.
\<close>

definition queried_balance :: "(string \<Rightarrow> real) \<Rightarrow> tool_result \<Rightarrow> real" where
  "queried_balance pb r =
     (case r of
        Exited rc out err \<Rightarrow> (if out = [] then 0 else pb out)
      | TimedOut \<Rightarrow> 0
      | NotFound \<Rightarrow> 0)"

definition approves :: "config \<Rightarrow> bool \<Rightarrow> real \<Rightarrow> bool" where
  "approves cfg was_paused bal =
     (if was_paused \<or> bal < low_balance cfg then resume_balance cfg \<le> bal else True)"

text \<open>
  Three more abbreviations for the statements below: the lines the balance query
  writes to the log when the tool answers \<open>r\<close>, the notifications the safety block
  posts when \<open>paused\<close> was \<open>p\<close> on entry and the balance is \<open>bal\<close>, and the trace of
  trades of \<open>s\<close> with one more trade made (its row, its stake command, its notification
  if a live webhook is set, the counters incremented).
\<close>

definition balance_lines :: "config \<Rightarrow> tool_result \<Rightarrow> log_entry list" where
  "balance_lines cfg r =
     [LogFetching, LogCmd (BalanceCmd (btcli_path cfg) (my_wallet cfg) (network cfg))]
       @ (case r of
            Exited rc out err \<Rightarrow>
              (if out = [] then [] else [LogOut out]) @ (if err = [] then [] else [LogOut err])
          | TimedOut \<Rightarrow> [LogTimedOut]
          | NotFound \<Rightarrow> [LogNotFound])"

definition pause_notes :: "config \<Rightarrow> bool \<Rightarrow> real \<Rightarrow> notice list" where
  "pause_notes cfg was_paused bal =
     (if live_webhook cfg = [] then []
      else (if \<not> was_paused \<and> bal < low_balance cfg
            then [PausedNote bal (low_balance cfg)] else [])
         @ (if (was_paused \<or> bal < low_balance cfg) \<and> resume_balance cfg \<le> bal
            then [ResumedNote bal (resume_balance cfg)] else []))"

definition traded ::
  "config \<Rightarrow> action \<Rightarrow> nat \<Rightarrow> string \<Rightarrow> real \<Rightarrow> real \<Rightarrow> real \<Rightarrow> state
     \<Rightarrow> trade_row list \<times> cmd list \<times> notice list \<times> summary_window" where
  "traded cfg act n hk a d bal s =
     (db s @ [\<lparr>t_action = act, t_netuid = n, t_hotkey = hk, t_amount = a, t_delta = d,
                t_balance = bal\<rparr>],
      filter is_stake (invocations s)
        @ [StakeCmd (btcli_path cfg) act n (my_wallet cfg) a (network cfg)],
      filter is_trade_notice (notifications s)
        @ (if live_webhook cfg = [] then [] else [TradeEmbed act n hk a d]),
      (if act = Add
       then (summary s)\<lparr>trades := trades (summary s) + 1, add_tao := add_tao (summary s) + a,
               subnets := insert n (subnets (summary s))\<rparr>
       else (summary s)\<lparr>trades := trades (summary s) + 1, rem_tao := rem_tao (summary s) + a,
               subnets := insert n (subnets (summary s))\<rparr>))"

subsection \<open>Sample inputs\<close>

definition sample_cfg :: config where
  "sample_cfg =
     \<lparr>network = ''finney'', my_wallet = ''mine'', fixed_amount = Some (1 / 10),
      hotkeys = [''hkA''], weights = [1 / 2], poll_seconds = 30,
      trade_mode = ''proportional'', live_webhook = ''live'', summary_webhook = ''daily'',
      low_balance = 1, resume_balance = 2, btcli_path = ''btcli''\<rparr>"

definition sample_state :: state where
  "sample_state =
     \<lparr>last_stakes = Map.empty, paused = False, summary = empty_summary,
      state_file = Map.empty, trend_file = None, db = [], invocations = [],
      notifications = [], logfile = []\<rparr>"

text \<open>A stand-in for the search of the tool's output, on the outputs the samples use.\<close>

definition sample_pb :: "string \<Rightarrow> real" where
  "sample_pb out =
     (if out = ''0.8'' then 8 / 10
      else if out = ''1.5'' then 3 / 2
      else if out = ''2.5'' then 5 / 2
      else if out = ''5.0'' then 5
      else 0)"

definition sample_event :: event where
  "sample_event = (Add, 3, ''hkA'', 10)"

definition sample_replies :: "string \<Rightarrow> replies" where
  "sample_replies out = (Exited 0 out [], Exited 0 [] [])"

definition sample_round :: round_input where
  "sample_round =
     \<lparr>events = [(sample_event, sample_replies ''0.8''), (sample_event, sample_replies ''1.5'')],
      subnet_count = 4,
      metagraphs = (\<lambda>n. \<lparr>mg_hotkeys = [''hkA''], mg_stake = [110]\<rparr>),
      poll_replies = (\<lambda>n i. sample_replies ''0.8'')\<rparr>"

definition fixed_cfg :: config where
  "fixed_cfg = sample_cfg\<lparr>trade_mode := ''fixed''\<rparr>"

definition zero_weight_cfg :: config where
  "zero_weight_cfg = sample_cfg\<lparr>weights := [0]\<rparr>"

definition flapping_cfg :: config where
  "flapping_cfg = sample_cfg\<lparr>low_balance := 2, resume_balance := 1\<rparr>"

text \<open>The same change of state under either outcome; used to state what a step does not read.\<close>

fun map_outcome :: "(state \<Rightarrow> state) \<Rightarrow> outcome \<Rightarrow> outcome" where
  "map_outcome f (Done s) = Done (f s)"
| "map_outcome f (Raised e s) = Raised e (f s)"

definition flapping_answers :: wizard where
  "flapping_answers =
     \<lparr>in_network = [], in_wallet = ''mine'', in_amt = Some (1 / 10),
      in_hotkeys = [(''hkA'', None)], in_poll = None, in_mode = [], in_live = ''live'',
      in_summary = ''daily'', in_low = Some 2, in_resume = Some 1, in_which = None\<rparr>"

text \<open>A state with the stake 100 recorded for \<open>hkA\<close> on subnet 3, and a metagraph of that subnet.\<close>

definition tracked_state :: state where
  "tracked_state = sample_state\<lparr>last_stakes := [3 \<mapsto> [''hkA'' \<mapsto> 100]]\<rparr>"

definition sample_mg :: "real \<Rightarrow> metagraph" where
  "sample_mg v = \<lparr>mg_hotkeys = [''hkA''], mg_stake = [v]\<rparr>"

section \<open>Properties\<close>

subsection \<open>The effect of each statement on the trace of trades\<close>

lemma trace_log_msg: "trade_trace (log_msg l s) = trade_trace s"
  by (simp add: trade_trace_def log_msg_def)

lemma trace_notify_text: "\<not> is_trade_notice m \<Longrightarrow> trade_trace (notify_text w m s) = trade_trace s"
  by (simp add: trade_trace_def notify_text_def)

lemma paused_notify_text: "paused (notify_text w m s) = paused s"
  by (simp add: notify_text_def)

lemma balance_value: "fst (get_wallet_balance_via_btcli pb cfg r s) = queried_balance pb r"
  by (cases r) (simp_all add: get_wallet_balance_via_btcli_def queried_balance_def)

lemma balance_trace: "trade_trace (snd (get_wallet_balance_via_btcli pb cfg r s)) = trade_trace s"
  by (cases r) (simp_all add: get_wallet_balance_via_btcli_def trade_trace_def log_msg_def)

lemma balance_paused: "paused (snd (get_wallet_balance_via_btcli pb cfg r s)) = paused s"
  by (cases r) (simp_all add: get_wallet_balance_via_btcli_def log_msg_def)

lemma balance_stakes: "last_stakes (snd (get_wallet_balance_via_btcli pb cfg r s)) = last_stakes s"
  by (cases r) (simp_all add: get_wallet_balance_via_btcli_def log_msg_def)

lemma safety_go: "fst (safety cfg bal s) = approves cfg (paused s) bal"
  by (simp add: safety_def approves_def Let_def notify_text_def)

lemma safety_paused: "paused (snd (safety cfg bal s)) = (\<not> approves cfg (paused s) bal)"
  by (simp add: safety_def approves_def Let_def notify_text_def)

lemma safety_trace: "trade_trace (snd (safety cfg bal s)) = trade_trace s"
  by (simp add: safety_def Let_def notify_text_def trade_trace_def)

lemma safety_stakes: "last_stakes (snd (safety cfg bal s)) = last_stakes s"
  by (simp add: safety_def Let_def notify_text_def)

lemma mirror_stake_trace:
  "trade_trace (mirror_stake act n cfg a hk d r s) =
     (if a \<le> 0 then trade_trace s
      else (db s,
            filter is_stake (invocations s) @ [StakeCmd (btcli_path cfg) act n (my_wallet cfg) a (network cfg)],
            filter is_trade_notice (notifications s) @ (if live_webhook cfg = [] then [] else [TradeEmbed act n hk a d]),
            (if act = Add
             then (summary s)\<lparr>trades := trades (summary s) + 1, add_tao := add_tao (summary s) + a,
                     subnets := insert n (subnets (summary s))\<rparr>
             else (summary s)\<lparr>trades := trades (summary s) + 1, rem_tao := rem_tao (summary s) + a,
                     subnets := insert n (subnets (summary s))\<rparr>)))"
  by (cases r) (simp_all add: mirror_stake_def trade_trace_def log_msg_def send_trade_embed_def post_embed_def Let_def)

lemma mirror_delta_eq:
  "mirror_delta pb cfg dry act n i hk d rp s =
     (if length (weights cfg) \<le> i then Raised IndexError s
      else
        (case sizing cfg d (weights cfg ! i) of
           Inl e \<Rightarrow> Raised e s
         | Inr a \<Rightarrow>
             (let bal = queried_balance pb (fst rp);
                  s2 = snd (safety cfg bal (snd (get_wallet_balance_via_btcli pb cfg (fst rp) s)))
              in if \<not> approves cfg (paused s) bal then Done s2
                 else if dry then Done (log_msg (LogDryRun act a n hk) s2)
                 else Done (log_trade_to_db act n hk a d bal
                              (mirror_stake act n cfg a hk d (snd rp) s2)))))"
proof -
  let ?b = "queried_balance pb (fst rp)"
  obtain s1 where q: "get_wallet_balance_via_btcli pb cfg (fst rp) s = (?b, s1)"
    using balance_value [of pb cfg "fst rp" s]
    by (cases "get_wallet_balance_via_btcli pb cfg (fst rp) s") simp
  have p: "paused s1 = paused s"
    using balance_paused [of pb cfg "fst rp" s] q by simp
  obtain s2 where g: "safety cfg ?b s1 = (approves cfg (paused s) ?b, s2)"
    using safety_go [of cfg ?b s1] p
    by (cases "safety cfg ?b s1") simp
  show ?thesis
    by (simp add: mirror_delta_def q g Let_def split: sum.splits)
qed

lemma trace_log_trade_to_db:
  "trade_trace (log_trade_to_db act n hk a d bal s) =
     (db s @ [\<lparr>t_action = act, t_netuid = n, t_hotkey = hk, t_amount = a, t_delta = d, t_balance = bal\<rparr>],
      snd (trade_trace s))"
  by (simp add: trade_trace_def log_trade_to_db_def)

lemma governed_trace:
  "trade_trace (snd (safety cfg bal (snd (get_wallet_balance_via_btcli pb cfg r s)))) = trade_trace s"
  by (simp add: safety_trace balance_trace)

lemma governed_paused:
  "paused (snd (safety cfg bal (snd (get_wallet_balance_via_btcli pb cfg r s)))) = (\<not> approves cfg (paused s) bal)"
  by (simp add: safety_paused balance_paused)

lemma governed_stakes:
  "last_stakes (snd (safety cfg bal (snd (get_wallet_balance_via_btcli pb cfg r s)))) = last_stakes s"
  by (simp add: safety_stakes balance_stakes)

lemma mirror_delta_dropped:
  assumes "\<not> approves cfg (paused s) (queried_balance pb (fst rp))"
  shows "trade_trace (state_of (mirror_delta pb cfg dry act n i hk d rp s)) = trade_trace s"
  using assms by (simp add: mirror_delta_eq governed_trace Let_def split: sum.splits)

lemma mirror_delta_dry:
  "trade_trace (state_of (mirror_delta pb cfg True act n i hk d rp s)) = trade_trace s"
  by (simp add: mirror_delta_eq governed_trace trace_log_msg Let_def split: sum.splits)

lemma mirror_delta_executed:
  assumes "i < length (weights cfg)" and "sizing cfg d (weights cfg ! i) = Inr a"
    and "approves cfg (paused s) (queried_balance pb (fst rp))"
  shows "db (state_of (mirror_delta pb cfg False act n i hk d rp s)) =
           db s @ [\<lparr>t_action = act, t_netuid = n, t_hotkey = hk, t_amount = a, t_delta = d,
                      t_balance = queried_balance pb (fst rp)\<rparr>]"
proof -
  let ?s2 = "snd (safety cfg (queried_balance pb (fst rp)) (snd (get_wallet_balance_via_btcli pb cfg (fst rp) s)))"
  have "db (mirror_stake act n cfg a hk d (snd rp) ?s2) = db ?s2"
    using mirror_stake_trace [of act n cfg a hk d "snd rp" ?s2]
    by (simp add: trade_trace_def split: if_splits)
  moreover have "db ?s2 = db s"
    using governed_trace [of cfg "queried_balance pb (fst rp)" pb "fst rp" s]
    by (simp add: trade_trace_def)
  ultimately show ?thesis
    using assms by (simp add: mirror_delta_eq Let_def log_trade_to_db_def)
qed

lemmas run_defs =
  mirror_delta_def process_event_def poll_hotkey_def sizing_def poll_action_def safety_def
  get_wallet_balance_via_btcli_def mirror_stake_def log_trade_to_db_def log_msg_def
  notify_text_def post_embed_def send_trade_embed_def Let_def

subsection \<open>Steps and rounds that make no trade\<close>

text \<open>
  A step makes no trade in dry-run mode, and none while \<open>paused\<close> holds and the balance
  queried stays under the resume threshold; in the second case it also stays paused.
  The loops inherit both facts.
\<close>

lemma mirror_delta_paused:
  assumes "paused s" and "queried_balance pb (fst rp) < resume_balance cfg"
  shows "paused (state_of (mirror_delta pb cfg dry act n i hk d rp s))"
  using assms
  by (simp add: mirror_delta_eq governed_paused approves_def Let_def split: sum.splits)

lemma mirror_delta_quiet:
  assumes "dry \<or> paused s \<and> queried_balance pb (fst rp) < resume_balance cfg"
  shows "trade_trace (state_of (mirror_delta pb cfg dry act n i hk d rp s)) = trade_trace s"
proof (cases dry)
  case True
  then show ?thesis by (simp add: mirror_delta_dry)
next
  case False
  with assms have "\<not> approves cfg (paused s) (queried_balance pb (fst rp))"
    by (simp add: approves_def)
  then show ?thesis by (rule mirror_delta_dropped)
qed

lemma process_event_quiet:
  assumes "dry \<or> paused s \<and> queried_balance pb (fst rp) < resume_balance cfg"
  shows "trade_trace (state_of (process_event pb cfg dry ev rp s)) = trade_trace s"
  using assms by (cases ev) (auto simp: process_event_def mirror_delta_quiet)

lemma process_event_paused:
  assumes "paused s" and "queried_balance pb (fst rp) < resume_balance cfg"
  shows "paused (state_of (process_event pb cfg dry ev rp s))"
  using assms by (cases ev) (auto simp: process_event_def mirror_delta_paused)

lemma trace_last_stakes_update: "trade_trace (s\<lparr>last_stakes := m\<rparr>) = trade_trace s"
  by (simp add: trade_trace_def)

lemma poll_hotkey_quiet:
  assumes "dry \<or> paused s \<and> queried_balance pb (fst rp) < resume_balance cfg"
  shows "trade_trace (state_of (poll_hotkey pb cfg dry n mg i hk rp s)) = trade_trace s"
  using assms
  by (auto simp: poll_hotkey_def Let_def mirror_delta_quiet trace_last_stakes_update
      split: option.splits)

lemma poll_hotkey_paused:
  assumes "paused s" and "queried_balance pb (fst rp) < resume_balance cfg"
  shows "paused (state_of (poll_hotkey pb cfg dry n mg i hk rp s))"
  using assms
  by (auto simp: poll_hotkey_def Let_def mirror_delta_paused split: option.splits)

lemma drain_events_quiet:
  assumes "dry \<or> paused s \<and> (\<forall>erp\<in>set evs. queried_balance pb (fst (snd erp)) < resume_balance cfg)"
  shows "trade_trace (state_of (drain_events pb cfg dry evs s)) = trade_trace s
         \<and> (paused s \<and> (\<forall>erp\<in>set evs. queried_balance pb (fst (snd erp)) < resume_balance cfg)
              \<longrightarrow> paused (state_of (drain_events pb cfg dry evs s)))"
  using assms
proof (induction evs arbitrary: s)
  case Nil
  then show ?case by simp
next
  case (Cons x evs)
  obtain ev rp where x: "x = (ev, rp)" by (cases x)
  from Cons.prems have q: "dry \<or> paused s \<and> queried_balance pb (fst rp) < resume_balance cfg"
    by (auto simp: x)
  have t: "trade_trace (state_of (process_event pb cfg dry ev rp s)) = trade_trace s"
    using q by (rule process_event_quiet)
  have p: "paused s \<and> queried_balance pb (fst rp) < resume_balance cfg
           \<Longrightarrow> paused (state_of (process_event pb cfg dry ev rp s))"
    by (simp add: process_event_paused)
  show ?case
  proof (cases "process_event pb cfg dry ev rp s")
    case (Raised e s')
    with t p show ?thesis by (auto simp: x)
  next
    case (Done s')
    from Cons.prems p Done
    have "dry \<or> paused s' \<and> (\<forall>erp\<in>set evs. queried_balance pb (fst (snd erp)) < resume_balance cfg)"
      by (auto simp: x)
    from Cons.IH [OF this] t p Done show ?thesis by (auto simp: x)
  qed
qed

lemma poll_hotkeys_quiet:
  assumes "dry \<or> paused s \<and> (\<forall>i. queried_balance pb (fst (rps i)) < resume_balance cfg)"
  shows "trade_trace (state_of (poll_hotkeys pb cfg dry n mg rps ihs s)) = trade_trace s
         \<and> (paused s \<and> (\<forall>i. queried_balance pb (fst (rps i)) < resume_balance cfg)
              \<longrightarrow> paused (state_of (poll_hotkeys pb cfg dry n mg rps ihs s)))"
  using assms
proof (induction ihs arbitrary: s)
  case Nil
  then show ?case by simp
next
  case (Cons x ihs)
  obtain i hk where x: "x = (i, hk)" by (cases x)
  from Cons.prems have q: "dry \<or> paused s \<and> queried_balance pb (fst (rps i)) < resume_balance cfg"
    by auto
  have t: "trade_trace (state_of (poll_hotkey pb cfg dry n mg i hk (rps i) s)) = trade_trace s"
    using q by (rule poll_hotkey_quiet)
  have p: "paused s \<and> queried_balance pb (fst (rps i)) < resume_balance cfg
           \<Longrightarrow> paused (state_of (poll_hotkey pb cfg dry n mg i hk (rps i) s))"
    by (simp add: poll_hotkey_paused)
  show ?case
  proof (cases "poll_hotkey pb cfg dry n mg i hk (rps i) s")
    case (Raised e s')
    with t p show ?thesis by (auto simp: x)
  next
    case (Done s')
    from Cons.prems p Done
    have "dry \<or> paused s' \<and> (\<forall>i. queried_balance pb (fst (rps i)) < resume_balance cfg)"
      by auto
    from Cons.IH [OF this] t p Done show ?thesis by (auto simp: x)
  qed
qed

lemma poll_subnets_quiet:
  assumes "dry \<or> paused s \<and> (\<forall>n i. queried_balance pb (fst (rps n i)) < resume_balance cfg)"
  shows "trade_trace (state_of (poll_subnets pb cfg dry mgs rps ns s)) = trade_trace s
         \<and> (paused s \<and> (\<forall>n i. queried_balance pb (fst (rps n i)) < resume_balance cfg)
              \<longrightarrow> paused (state_of (poll_subnets pb cfg dry mgs rps ns s)))"
  using assms
proof (induction ns arbitrary: s)
  case Nil
  then show ?case by simp
next
  case (Cons n ns)
  show ?case
  proof (cases "mg_hotkeys (mgs n) = []")
    case True
    with Cons.IH [OF Cons.prems] show ?thesis by simp
  next
    case False
    let ?r = "poll_hotkeys pb cfg dry n (mgs n) (rps n) (enumerate 0 (hotkeys cfg)) s"
    from Cons.prems
    have "dry \<or> paused s \<and> (\<forall>i. queried_balance pb (fst (rps n i)) < resume_balance cfg)"
      by auto
    from poll_hotkeys_quiet [OF this]
    have t: "trade_trace (state_of ?r) = trade_trace s"
      and p: "paused s \<and> (\<forall>i. queried_balance pb (fst (rps n i)) < resume_balance cfg)
              \<longrightarrow> paused (state_of ?r)"
      by blast+
    show ?thesis
    proof (cases ?r)
      case (Raised e s')
      with t p False show ?thesis by auto
    next
      case (Done s')
      from Cons.prems p Done
      have "dry \<or> paused s' \<and> (\<forall>n i. queried_balance pb (fst (rps n i)) < resume_balance cfg)"
        by auto
      from Cons.IH [OF this] t p Done False show ?thesis by auto
    qed
  qed
qed

lemma loop_error_trace: "trade_trace (loop_error cfg e s) = trade_trace s"
  by (simp add: loop_error_def trace_notify_text trace_log_msg)

lemma loop_error_paused: "paused (loop_error cfg e s) = paused s"
  by (simp add: loop_error_def paused_notify_text log_msg_def)

lemma iteration_quiet:
  assumes "dry \<or> paused s
             \<and> (\<forall>erp\<in>set (events inp). queried_balance pb (fst (snd erp)) < resume_balance cfg)
             \<and> (\<forall>n i. queried_balance pb (fst (poll_replies inp n i)) < resume_balance cfg)"
  shows "trade_trace (iteration pb cfg dry inp s) = trade_trace s
         \<and> (paused s
             \<and> (\<forall>erp\<in>set (events inp). queried_balance pb (fst (snd erp)) < resume_balance cfg)
             \<and> (\<forall>n i. queried_balance pb (fst (poll_replies inp n i)) < resume_balance cfg)
            \<longrightarrow> paused (iteration pb cfg dry inp s))"
proof -
  let ?A = "\<forall>erp\<in>set (events inp). queried_balance pb (fst (snd erp)) < resume_balance cfg"
  let ?B = "\<forall>n i. queried_balance pb (fst (poll_replies inp n i)) < resume_balance cfg"
  let ?r = "drain_events pb cfg dry (events inp) s"
  from assms have "dry \<or> paused s \<and> ?A" by blast
  from drain_events_quiet [OF this]
  have t: "trade_trace (state_of ?r) = trade_trace s"
    and p: "paused s \<and> ?A \<longrightarrow> paused (state_of ?r)"
    by blast+
  show ?thesis
  proof (cases ?r)
    case (Raised e s1)
    with t p show ?thesis
      by (auto simp: iteration_def loop_error_trace loop_error_paused)
  next
    case (Done s1)
    let ?q = "poll_subnets pb cfg dry (metagraphs inp) (poll_replies inp) [0 ..< subnet_count inp] s1"
    from assms p Done have "dry \<or> paused s1 \<and> ?B" by auto
    from poll_subnets_quiet [OF this]
    have t2: "trade_trace (state_of ?q) = trade_trace s1"
      and p2: "paused s1 \<and> ?B \<longrightarrow> paused (state_of ?q)"
      by blast+
    show ?thesis
    proof (cases ?q)
      case (Raised e s2)
      with t p t2 p2 Done show ?thesis
        by (auto simp: iteration_def loop_error_trace loop_error_paused)
    next
      case (Done s2)
      with t p t2 p2 \<open>?r = Done s1\<close> show ?thesis
        by (auto simp: iteration_def trade_trace_def)
    qed
  qed
qed

lemma run_loop_quiet:
  assumes "dry \<or> paused s
             \<and> (\<forall>inp\<in>set inps.
                  (\<forall>erp\<in>set (events inp). queried_balance pb (fst (snd erp)) < resume_balance cfg)
                  \<and> (\<forall>n i. queried_balance pb (fst (poll_replies inp n i)) < resume_balance cfg))"
  shows "trade_trace (run_loop pb cfg dry inps s) = trade_trace s
         \<and> (paused s
             \<and> (\<forall>inp\<in>set inps.
                  (\<forall>erp\<in>set (events inp). queried_balance pb (fst (snd erp)) < resume_balance cfg)
                  \<and> (\<forall>n i. queried_balance pb (fst (poll_replies inp n i)) < resume_balance cfg))
            \<longrightarrow> paused (run_loop pb cfg dry inps s))"
  using assms
proof (induction inps arbitrary: s)
  case Nil
  then show ?case by simp
next
  case (Cons inp inps)
  let ?s = "iteration pb cfg dry inp s"
  from Cons.prems
  have "dry \<or> paused s
             \<and> (\<forall>erp\<in>set (events inp). queried_balance pb (fst (snd erp)) < resume_balance cfg)
             \<and> (\<forall>n i. queried_balance pb (fst (poll_replies inp n i)) < resume_balance cfg)"
    by auto
  from iteration_quiet [OF this]
  have t: "trade_trace ?s = trade_trace s"
    and p: "paused s
             \<and> (\<forall>erp\<in>set (events inp). queried_balance pb (fst (snd erp)) < resume_balance cfg)
             \<and> (\<forall>n i. queried_balance pb (fst (poll_replies inp n i)) < resume_balance cfg)
            \<longrightarrow> paused ?s"
    by blast+
  from Cons.prems p
  have "dry \<or> paused ?s
             \<and> (\<forall>inp\<in>set inps.
                  (\<forall>erp\<in>set (events inp). queried_balance pb (fst (snd erp)) < resume_balance cfg)
                  \<and> (\<forall>n i. queried_balance pb (fst (poll_replies inp n i)) < resume_balance cfg))"
    by auto
  from Cons.IH [OF this] t p Cons.prems show ?case by auto
qed

lemmas sample_defs =
  sample_cfg_def sample_state_def sample_pb_def empty_summary_def sample_event_def
  sample_replies_def queried_balance_def approves_def

lemma safety_log: "logfile (snd (safety cfg bal s)) = logfile s"
  by (simp add: safety_def Let_def notify_text_def)

lemma mirror_delta_db:
  "db (state_of (mirror_delta pb cfg dry act n i hk d rp s)) =
     (if \<not> dry \<and> i < length (weights cfg) \<and> approves cfg (paused s) (queried_balance pb (fst rp))
      then (case sizing cfg d (weights cfg ! i) of
              Inl e \<Rightarrow> db s
            | Inr a \<Rightarrow> db s @ [\<lparr>t_action = act, t_netuid = n, t_hotkey = hk, t_amount = a,
                                   t_delta = d, t_balance = queried_balance pb (fst rp)\<rparr>])
      else db s)"
proof (cases "\<not> dry \<and> i < length (weights cfg) \<and> approves cfg (paused s) (queried_balance pb (fst rp))")
  case True
  show ?thesis
  proof (cases "sizing cfg d (weights cfg ! i)")
    case (Inl e)
    with True show ?thesis by (simp add: mirror_delta_eq)
  next
    case (Inr a)
    with True mirror_delta_executed [of i cfg d a s pb rp act n hk] show ?thesis by simp
  qed
next
  case False
  have "trade_trace (state_of (mirror_delta pb cfg dry act n i hk d rp s)) = trade_trace s"
  proof (cases "length (weights cfg) \<le> i")
    case True
    then show ?thesis by (simp add: mirror_delta_eq)
  next
    case len: False
    show ?thesis
    proof (cases dry)
      case True
      then show ?thesis by (simp add: mirror_delta_dry)
    next
      case nd: False
      with False len have "\<not> approves cfg (paused s) (queried_balance pb (fst rp))" by simp
      then show ?thesis by (rule mirror_delta_dropped)
    qed
  qed
  then have "db (state_of (mirror_delta pb cfg dry act n i hk d rp s)) = db s"
    by (simp add: trade_trace_def)
  with False show ?thesis by auto
qed

subsection \<open>The pause\<close>

text \<open>
  C5. Once \<open>paused\<close> holds, then through any number of rounds of the loop, with any
  events and any polled stakes, in which every balance queried is under the resume
  threshold, the run stays paused and makes no trade: no row, no stake command, no
  trade notification, no counter. The state keeps no list of the intents it dropped,
  and the step that follows the stretch adds at most its own row to the rows that were
  there before the stretch: one row when it is not a dry run and its queried balance
  reaches the resume threshold, none otherwise.
\<close>

theorem paused_until_resume_balance:
  assumes "paused s"
    and "\<forall>inp\<in>set inps.
           (\<forall>erp\<in>set (events inp). queried_balance pb (fst (snd erp)) < resume_balance cfg)
           \<and> (\<forall>n i. queried_balance pb (fst (poll_replies inp n i)) < resume_balance cfg)"
  shows "paused (run_loop pb cfg dry inps s)
         \<and> trade_trace (run_loop pb cfg dry inps s) = trade_trace s
         \<and> db (state_of (mirror_delta pb cfg dry act n i hk d rp (run_loop pb cfg dry inps s))) =
             (if \<not> dry \<and> i < length (weights cfg) \<and> resume_balance cfg \<le> queried_balance pb (fst rp)
              then (case sizing cfg d (weights cfg ! i) of
                      Inl e \<Rightarrow> db s
                    | Inr a \<Rightarrow> db s @ [\<lparr>t_action = act, t_netuid = n, t_hotkey = hk, t_amount = a,
                                           t_delta = d, t_balance = queried_balance pb (fst rp)\<rparr>])
              else db s)"
proof -
  let ?s = "run_loop pb cfg dry inps s"
  from assms run_loop_quiet [of dry s inps pb cfg]
  have p: "paused ?s" and t: "trade_trace ?s = trade_trace s"
    by blast+
  from t have d: "db ?s = db s"
    by (simp add: trade_trace_def)
  from p have a: "approves cfg (paused ?s) b = (resume_balance cfg \<le> b)" for b
    by (simp add: approves_def)
  have "db (state_of (mirror_delta pb cfg dry act n i hk d rp ?s)) =
             (if \<not> dry \<and> i < length (weights cfg) \<and> resume_balance cfg \<le> queried_balance pb (fst rp)
              then (case sizing cfg d (weights cfg ! i) of
                      Inl e \<Rightarrow> db s
                    | Inr a \<Rightarrow> db s @ [\<lparr>t_action = act, t_netuid = n, t_hotkey = hk, t_amount = a,
                                           t_delta = d, t_balance = queried_balance pb (fst rp)\<rparr>])
              else db s)"
    by (simp only: mirror_delta_db a d)
  with p t show ?thesis by blast
qed

text \<open>
  Two rounds while paused, with balances 0.8 and 1.5 under the resume threshold 2,
  then a step whose balance query returns 2.5.
\<close>

theorem paused_until_resume_balance_witness:
  "paused (sample_state\<lparr>paused := True\<rparr>)
   \<and> paused (run_loop sample_pb sample_cfg False [sample_round, sample_round]
               (sample_state\<lparr>paused := True\<rparr>))
   \<and> trade_trace (run_loop sample_pb sample_cfg False [sample_round, sample_round]
               (sample_state\<lparr>paused := True\<rparr>)) = ([], [], [], empty_summary)
   \<and> db (state_of (mirror_delta sample_pb sample_cfg False Add 3 0 ''hkA'' 10 (sample_replies ''2.5'')
            (run_loop sample_pb sample_cfg False [sample_round, sample_round]
               (sample_state\<lparr>paused := True\<rparr>)))) =
       [\<lparr>t_action = Add, t_netuid = 3, t_hotkey = ''hkA'', t_amount = 5, t_delta = 10,
          t_balance = 5 / 2\<rparr>]"
proof -
  have h1: "paused (sample_state\<lparr>paused := True\<rparr>)"
    by simp
  have h2: "\<forall>inp\<in>set [sample_round, sample_round].
           (\<forall>erp\<in>set (events inp). queried_balance sample_pb (fst (snd erp)) < resume_balance sample_cfg)
           \<and> (\<forall>n i. queried_balance sample_pb (fst (poll_replies inp n i)) < resume_balance sample_cfg)"
    by (simp add: sample_round_def sample_defs)
  show ?thesis
    using paused_until_resume_balance [OF h1 h2, of False Add 3 0 "''hkA''" 10 "sample_replies ''2.5''"]
    by (simp add: sample_defs sizing_def trade_trace_def)
qed

subsection \<open>The executor and the result of the tool\<close>

text \<open>
  C1, as stated, fails: the return code of \<^verbatim>\<open>run_btcli\<close> is bound in
  \<^verbatim>\<open>mirror_stake\<close> and never read. With the stake command exiting with status 1,
  timing out, or not found, the row is written all the same, the trade notification
  is posted and the counters are incremented.
\<close>

theorem failed_tool_still_recorded:
  "fst (fst (run_btcli (StakeCmd ''btcli'' Add 3 ''mine'' 5 ''finney'') (Exited 1 [] ''error'') sample_state)) = 1
   \<and> trade_trace (state_of (process_event sample_pb sample_cfg False sample_event
        (Exited 0 ''5.0'' [], Exited 1 [] ''error'') sample_state)) =
       ([\<lparr>t_action = Add, t_netuid = 3, t_hotkey = ''hkA'', t_amount = 5, t_delta = 10,
           t_balance = 5\<rparr>],
        [StakeCmd ''btcli'' Add 3 ''mine'' 5 ''finney''],
        [TradeEmbed Add 3 ''hkA'' 5 10],
        \<lparr>trades = 1, add_tao = 5, rem_tao = 0, subnets = {3}\<rparr>)
   \<and> db (state_of (process_event sample_pb sample_cfg False sample_event
        (Exited 0 ''5.0'' [], TimedOut) sample_state)) =
       [\<lparr>t_action = Add, t_netuid = 3, t_hotkey = ''hkA'', t_amount = 5, t_delta = 10,
          t_balance = 5\<rparr>]
   \<and> trades (summary (state_of (process_event sample_pb sample_cfg False sample_event
        (Exited 0 ''5.0'' [], NotFound) sample_state))) = 1"
  by (simp add: run_defs sample_defs trade_trace_def)

lemma mirror_stake_db: "db (mirror_stake act n cfg a hk d r s) = db s"
  using mirror_stake_trace [of act n cfg a hk d r s]
  by (simp add: trade_trace_def split: if_splits)

text \<open>
  C1, amended. For every intent that passes the safety block outside a dry run with an
  amount above zero, the executor gives the stake command to the tool once and,
  whatever the tool answers \<open>r\<close> (exit status zero or not, timeout, tool not found),
  one row is appended, the trade notification is posted when a live webhook is
  configured, and the counters of the summary are incremented. The right-hand side
  does not mention \<open>r\<close>.
\<close>

theorem executor_ignores_exit_status:
  assumes "i < length (weights cfg)"
    and "sizing cfg d (weights cfg ! i) = Inr a"
    and "0 < a"
    and "approves cfg (paused s) (queried_balance pb rb)"
  shows "trade_trace (state_of (mirror_delta pb cfg False act n i hk d (rb, r) s)) =
           (db s @ [\<lparr>t_action = act, t_netuid = n, t_hotkey = hk, t_amount = a, t_delta = d,
                      t_balance = queried_balance pb rb\<rparr>],
            filter is_stake (invocations s)
              @ [StakeCmd (btcli_path cfg) act n (my_wallet cfg) a (network cfg)],
            filter is_trade_notice (notifications s)
              @ (if live_webhook cfg = [] then [] else [TradeEmbed act n hk a d]),
            (if act = Add
             then (summary s)\<lparr>trades := trades (summary s) + 1, add_tao := add_tao (summary s) + a,
                     subnets := insert n (subnets (summary s))\<rparr>
             else (summary s)\<lparr>trades := trades (summary s) + 1, rem_tao := rem_tao (summary s) + a,
                     subnets := insert n (subnets (summary s))\<rparr>))"
proof -
  let ?s2 = "snd (safety cfg (queried_balance pb rb) (snd (get_wallet_balance_via_btcli pb cfg rb s)))"
  have g: "trade_trace ?s2 = trade_trace s"
    by (rule governed_trace)
  then have f: "db ?s2 = db s" "filter is_stake (invocations ?s2) = filter is_stake (invocations s)"
    "filter is_trade_notice (notifications ?s2) = filter is_trade_notice (notifications s)"
    "summary ?s2 = summary s"
    by (simp_all add: trade_trace_def)
  have m: "state_of (mirror_delta pb cfg False act n i hk d (rb, r) s) =
             log_trade_to_db act n hk a d (queried_balance pb rb) (mirror_stake act n cfg a hk d r ?s2)"
    using assms by (simp add: mirror_delta_eq Let_def)
  show ?thesis
    using assms(3) by (simp add: m trace_log_trade_to_db mirror_stake_trace mirror_stake_db f)
qed

text \<open>The stake command times out; the trade is recorded.\<close>

theorem executor_ignores_exit_status_witness:
  "0 < length (weights sample_cfg)
   \<and> sizing sample_cfg 10 (weights sample_cfg ! 0) = Inr 5
   \<and> approves sample_cfg (paused sample_state) (queried_balance sample_pb (Exited 0 ''5.0'' []))
   \<and> trade_trace (state_of (mirror_delta sample_pb sample_cfg False Add 3 0 ''hkA'' 10
        (Exited 0 ''5.0'' [], TimedOut) sample_state)) =
       ([\<lparr>t_action = Add, t_netuid = 3, t_hotkey = ''hkA'', t_amount = 5, t_delta = 10,
           t_balance = 5\<rparr>],
        [StakeCmd ''btcli'' Add 3 ''mine'' 5 ''finney''],
        [TradeEmbed Add 3 ''hkA'' 5 10],
        \<lparr>trades = 1, add_tao = 5, rem_tao = 0, subnets = {3}\<rparr>)"
proof -
  have h1: "0 < length (weights sample_cfg)"
    by (simp add: sample_defs)
  have h2: "sizing sample_cfg 10 (weights sample_cfg ! 0) = Inr 5"
    by (simp add: sample_defs sizing_def)
  have h3: "(0::real) < 5"
    by simp
  have h4: "approves sample_cfg (paused sample_state) (queried_balance sample_pb (Exited 0 ''5.0'' []))"
    by (simp add: sample_defs)
  show ?thesis
    using executor_ignores_exit_status [OF h1 h2 h3 h4, of Add 3 "''hkA''" TimedOut] h1 h2 h4
    by (simp add: sample_defs)
qed

subsection \<open>Amounts that are not positive\<close>

text \<open>
  C2 at a failing input: proportional sizing with weight 0 gives the amount 0.
  \<^verbatim>\<open>mirror_stake\<close> returns at its guard (no stake command, no trade notification,
  no counter), and \<^verbatim>\<open>run\<close> still calls \<^verbatim>\<open>log_trade_to_db\<close>: a row with amount 0
  is written, for an event of the queue and for a polled delta.
\<close>

theorem zero_amount_row_written:
  "sizing zero_weight_cfg 10 (weights zero_weight_cfg ! 0) = Inr 0
   \<and> trade_trace (state_of (process_event sample_pb zero_weight_cfg False sample_event
        (sample_replies ''5.0'') sample_state)) =
       ([\<lparr>t_action = Add, t_netuid = 3, t_hotkey = ''hkA'', t_amount = 0, t_delta = 10,
           t_balance = 5\<rparr>], [], [], empty_summary)
   \<and> trade_trace (state_of (poll_hotkey sample_pb zero_weight_cfg False 3
        \<lparr>mg_hotkeys = [''hkA''], mg_stake = [110]\<rparr> 0 ''hkA'' (sample_replies ''5.0'')
        (sample_state\<lparr>last_stakes := [3 \<mapsto> [''hkA'' \<mapsto> 100]]\<rparr>))) =
       ([\<lparr>t_action = Add, t_netuid = 3, t_hotkey = ''hkA'', t_amount = 0, t_delta = 10,
           t_balance = 5\<rparr>], [], [], empty_summary)"
  by (simp add: run_defs sample_defs zero_weight_cfg_def trade_trace_def)

subsection \<open>The first observation of a key\<close>

text \<open>
  C3, as stated for either channel, fails on the push channel: an event of the queue
  carries its own delta and is mirrored without any look at the baseline. Here the
  baseline is empty, the event is the first thing ever seen of the key, and the trade
  is made.
\<close>

theorem first_push_event_is_traded:
  "last_stakes sample_state = Map.empty
   \<and> trade_trace (state_of (process_event sample_pb sample_cfg False sample_event
        (sample_replies ''5.0'') sample_state)) =
       ([\<lparr>t_action = Add, t_netuid = 3, t_hotkey = ''hkA'', t_amount = 5, t_delta = 10,
           t_balance = 5\<rparr>],
        [StakeCmd ''btcli'' Add 3 ''mine'' 5 ''finney''],
        [TradeEmbed Add 3 ''hkA'' 5 10],
        \<lparr>trades = 1, add_tao = 5, rem_tao = 0, subnets = {3}\<rparr>)"
  by (simp add: run_defs sample_defs trade_trace_def)

text \<open>
  C3, amended to the poll channel. When the polling pass meets a hotkey on a subnet
  for which no stake is recorded (no entry for the subnet, or none for the hotkey in
  it), the step records the stake as the baseline and does nothing else: the result
  is the state with that one entry set, so there is no delta, no balance query, no
  trade, no notification and no line in the log.
\<close>

theorem first_poll_sets_baseline:
  assumes "hk \<in> set (mg_hotkeys mg)"
    and "index_of (mg_hotkeys mg) hk < length (mg_stake mg)"
    and "last_stakes s n = None \<or> (\<exists>m. last_stakes s n = Some m \<and> m hk = None)"
  shows "poll_hotkey pb cfg dry n mg i hk rp s =
           Done (s\<lparr>last_stakes := (last_stakes s)
                   (n \<mapsto> (case last_stakes s n of None \<Rightarrow> Map.empty | Some m \<Rightarrow> m)
                            (hk \<mapsto> mg_stake mg ! index_of (mg_hotkeys mg) hk))\<rparr>)"
  using assms by (auto simp: poll_hotkey_def Let_def)

text \<open>A first poll of \<open>hkA\<close> on subnet 3 with nothing recorded: the stake 110 is stored.\<close>

theorem first_poll_sets_baseline_witness:
  "''hkA'' \<in> set (mg_hotkeys \<lparr>mg_hotkeys = [''hkA''], mg_stake = [110]\<rparr>)
   \<and> last_stakes sample_state 3 = None
   \<and> trade_trace (state_of (poll_hotkey sample_pb sample_cfg False 3
        \<lparr>mg_hotkeys = [''hkA''], mg_stake = [110]\<rparr> 0 ''hkA'' (sample_replies ''5.0'')
        sample_state)) = ([], [], [], empty_summary)
   \<and> logfile (state_of (poll_hotkey sample_pb sample_cfg False 3
        \<lparr>mg_hotkeys = [''hkA''], mg_stake = [110]\<rparr> 0 ''hkA'' (sample_replies ''5.0'')
        sample_state)) = []
   \<and> last_stakes (state_of (poll_hotkey sample_pb sample_cfg False 3
        \<lparr>mg_hotkeys = [''hkA''], mg_stake = [110]\<rparr> 0 ''hkA'' (sample_replies ''5.0'')
        sample_state)) 3 = Some [''hkA'' \<mapsto> 110]"
proof -
  have h1: "''hkA'' \<in> set (mg_hotkeys \<lparr>mg_hotkeys = [''hkA''], mg_stake = [110]\<rparr>)"
    by simp
  have h2: "index_of (mg_hotkeys \<lparr>mg_hotkeys = [''hkA''], mg_stake = [110]\<rparr>) ''hkA''
              < length (mg_stake \<lparr>mg_hotkeys = [''hkA''], mg_stake = [110::real]\<rparr>)"
    by simp
  have h3: "last_stakes sample_state 3 = None
            \<or> (\<exists>m. last_stakes sample_state 3 = Some m \<and> m ''hkA'' = None)"
    by (simp add: sample_defs)
  show ?thesis
    using first_poll_sets_baseline [OF h1 h2 h3, of sample_pb sample_cfg False 0 "sample_replies ''5.0''"]
    by (simp add: sample_defs trade_trace_def)
qed

subsection \<open>The push channel and the baseline\<close>

lemma balance_with_stakes:
  "get_wallet_balance_via_btcli pb cfg r (s\<lparr>last_stakes := m\<rparr>) =
     (fst (get_wallet_balance_via_btcli pb cfg r s),
      (snd (get_wallet_balance_via_btcli pb cfg r s))\<lparr>last_stakes := m\<rparr>)"
  by (cases r) (simp_all add: get_wallet_balance_via_btcli_def log_msg_def)

lemma safety_with_stakes:
  "safety cfg bal (s\<lparr>last_stakes := m\<rparr>) =
     (fst (safety cfg bal s), (snd (safety cfg bal s))\<lparr>last_stakes := m\<rparr>)"
  by (simp add: safety_def Let_def notify_text_def)

lemma mirror_stake_with_stakes:
  "mirror_stake act n cfg a hk d r (s\<lparr>last_stakes := m\<rparr>) =
     (mirror_stake act n cfg a hk d r s)\<lparr>last_stakes := m\<rparr>"
  by (cases r)
    (simp_all add: mirror_stake_def log_msg_def send_trade_embed_def post_embed_def Let_def)

lemma mirror_delta_with_stakes:
  "mirror_delta pb cfg dry act n i hk d rp (s\<lparr>last_stakes := m\<rparr>) =
     map_outcome (\<lambda>t. t\<lparr>last_stakes := m\<rparr>) (mirror_delta pb cfg dry act n i hk d rp s)"
  by (simp add: mirror_delta_def balance_with_stakes safety_with_stakes mirror_stake_with_stakes
      log_msg_def log_trade_to_db_def split: sum.splits prod.splits)

lemma mirror_stake_stakes:
  "last_stakes (mirror_stake act n cfg a hk d r s) = last_stakes s"
  by (cases r)
    (simp_all add: mirror_stake_def log_msg_def send_trade_embed_def post_embed_def Let_def)

lemma mirror_delta_stakes:
  "last_stakes (state_of (mirror_delta pb cfg dry act n i hk d rp s)) = last_stakes s"
  by (simp add: mirror_delta_eq Let_def governed_stakes mirror_stake_stakes log_msg_def
      log_trade_to_db_def split: sum.splits)

text \<open>
  C9. A step of the push channel does not write \<open>last_stakes\<close> (it is the same after
  the step) and does not read it (run from a state with any other baseline \<open>b\<close>, the
  step does the same and leaves \<open>b\<close>). So a change the push channel has mirrored is
  still a change to the polling pass: when the stake found differs from the recorded
  one by \<open>1e-9\<close> or more, the next poll of the key takes the difference to the recorded
  stake as its delta and hands it to the sizing, the safety block and the executor.
\<close>

theorem push_channel_ignores_baseline:
  assumes "hk \<in> set (mg_hotkeys mg)"
    and "index_of (mg_hotkeys mg) hk < length (mg_stake mg)"
    and "last_stakes s n = Some m" and "m hk = Some l"
    and "\<not> \<bar>mg_stake mg ! index_of (mg_hotkeys mg) hk - l\<bar> < 1 / 10 ^ 9"
  shows "last_stakes (state_of (process_event pb cfg dry ev rp s)) = last_stakes s
         \<and> process_event pb cfg dry ev rp (s\<lparr>last_stakes := b\<rparr>) =
             map_outcome (\<lambda>t. t\<lparr>last_stakes := b\<rparr>) (process_event pb cfg dry ev rp s)
         \<and> poll_hotkey pb cfg dry n mg i hk rp' (state_of (process_event pb cfg dry ev rp s)) =
             mirror_delta pb cfg dry
               (poll_action (mg_stake mg ! index_of (mg_hotkeys mg) hk - l)) n i hk
               (mg_stake mg ! index_of (mg_hotkeys mg) hk - l) rp'
               ((state_of (process_event pb cfg dry ev rp s))
                  \<lparr>last_stakes := (last_stakes s)
                     (n \<mapsto> m(hk \<mapsto> mg_stake mg ! index_of (mg_hotkeys mg) hk))\<rparr>)"
proof -
  have a: "last_stakes (state_of (process_event pb cfg dry ev rp s)) = last_stakes s"
    by (cases ev) (simp add: process_event_def mirror_delta_stakes)
  have b: "process_event pb cfg dry ev rp (s\<lparr>last_stakes := b\<rparr>) =
             map_outcome (\<lambda>t. t\<lparr>last_stakes := b\<rparr>) (process_event pb cfg dry ev rp s)"
    by (cases ev) (simp add: process_event_def mirror_delta_with_stakes)
  have c: "poll_hotkey pb cfg dry n mg i hk rp' (state_of (process_event pb cfg dry ev rp s)) =
             mirror_delta pb cfg dry
               (poll_action (mg_stake mg ! index_of (mg_hotkeys mg) hk - l)) n i hk
               (mg_stake mg ! index_of (mg_hotkeys mg) hk - l) rp'
               ((state_of (process_event pb cfg dry ev rp s))
                  \<lparr>last_stakes := (last_stakes s)
                     (n \<mapsto> m(hk \<mapsto> mg_stake mg ! index_of (mg_hotkeys mg) hk))\<rparr>)"
    using assms by (simp add: poll_hotkey_def Let_def a)
  from a b c show ?thesis by blast
qed

text \<open>
  The stake of \<open>hkA\<close> on subnet 3 goes from 100 to 110. The event is mirrored, and the
  poll that follows mirrors the same change again: two rows.
\<close>

theorem push_channel_ignores_baseline_witness:
  "db (state_of (poll_hotkey sample_pb sample_cfg False 3
        \<lparr>mg_hotkeys = [''hkA''], mg_stake = [110]\<rparr> 0 ''hkA'' (sample_replies ''5.0'')
        (state_of (process_event sample_pb sample_cfg False sample_event (sample_replies ''5.0'')
           (sample_state\<lparr>last_stakes := [3 \<mapsto> [''hkA'' \<mapsto> 100]]\<rparr>))))) =
     [\<lparr>t_action = Add, t_netuid = 3, t_hotkey = ''hkA'', t_amount = 5, t_delta = 10,
        t_balance = 5\<rparr>,
      \<lparr>t_action = Add, t_netuid = 3, t_hotkey = ''hkA'', t_amount = 5, t_delta = 10,
        t_balance = 5\<rparr>]"
proof -
  let ?mg = "\<lparr>mg_hotkeys = [''hkA''], mg_stake = [110::real]\<rparr>"
  let ?s = "sample_state\<lparr>last_stakes := [3 \<mapsto> [''hkA'' \<mapsto> 100]]\<rparr>"
  have h1: "''hkA'' \<in> set (mg_hotkeys ?mg)"
    by simp
  have h2: "index_of (mg_hotkeys ?mg) ''hkA'' < length (mg_stake ?mg)"
    by simp
  have h3: "last_stakes ?s 3 = Some [''hkA'' \<mapsto> 100]"
    by simp
  have h4: "[''hkA'' \<mapsto> 100::real] ''hkA'' = Some 100"
    by simp
  have h5: "\<not> \<bar>mg_stake ?mg ! index_of (mg_hotkeys ?mg) ''hkA'' - 100\<bar> < 1 / 10 ^ 9"
    by simp
  have e: "db (state_of (process_event sample_pb sample_cfg False sample_event (sample_replies ''5.0'') ?s)) =
             [\<lparr>t_action = Add, t_netuid = 3, t_hotkey = ''hkA'', t_amount = 5, t_delta = 10,
                t_balance = 5\<rparr>]"
    by (simp add: run_defs sample_defs)
  have p: "\<not> paused (state_of (process_event sample_pb sample_cfg False sample_event (sample_replies ''5.0'') ?s))"
    by (simp add: run_defs sample_defs)
  show ?thesis
    using push_channel_ignores_baseline [OF h1 h2 h3 h4 h5, of sample_pb sample_cfg False
        sample_event "sample_replies ''5.0''" Map.empty 0 "sample_replies ''5.0''"] e p
    by (simp add: mirror_delta_db poll_action_def sizing_def sample_cfg_def sample_pb_def
        sample_replies_def queried_balance_def approves_def)
qed

subsection \<open>The trend of the first report\<close>

text \<open>
  C6, as stated, fails: with no balance stored from an earlier report, the report of a
  wallet holding 5 shows the trend \<open>Up 5\<close>, not 0.
\<close>

theorem first_report_trend_is_balance:
  "trend_file sample_state = None
   \<and> notifications (send_summary_embed sample_pb sample_cfg (summary sample_state)
        (Exited 0 ''5.0'' []) sample_state) =
       [SummaryEmbed \<lparr>rep_trades = 0, rep_subnets = 0, rep_add = 0, rep_rem = 0, rep_net = 0,
          rep_balance = 5, rep_trend = Up 5\<rparr>]"
  by (simp add: send_summary_embed_def get_wallet_balance_via_btcli_def log_msg_def
      post_embed_def trend_of_def sample_defs Let_def)

lemma balance_notifications:
  "notifications (snd (get_wallet_balance_via_btcli pb cfg r s)) = notifications s"
  by (cases r) (simp_all add: get_wallet_balance_via_btcli_def log_msg_def)

lemma balance_trend_file:
  "trend_file (snd (get_wallet_balance_via_btcli pb cfg r s)) = trend_file s"
  by (cases r) (simp_all add: get_wallet_balance_via_btcli_def log_msg_def)

text \<open>
  C6, amended. When a report is sent (a summary webhook is configured) and no balance
  is stored from an earlier report, the last balance is taken to be 0: the trend of
  the report is that of the balance itself, and it reads as no change only when the
  balance is within \<open>1e-9\<close> of 0. The balance is then stored for the next report.
\<close>

theorem first_report_trend:
  assumes "summary_webhook cfg \<noteq> []" and "trend_file s = None"
  shows "notifications (send_summary_embed pb cfg w r s) =
           notifications s @
             [SummaryEmbed \<lparr>rep_trades = trades w, rep_subnets = card (subnets w),
                rep_add = add_tao w, rep_rem = rem_tao w, rep_net = add_tao w - rem_tao w,
                rep_balance = queried_balance pb r,
                rep_trend = trend_of (queried_balance pb r)\<rparr>]
         \<and> trend_file (send_summary_embed pb cfg w r s) = Some (queried_balance pb r)
         \<and> (trend_of (queried_balance pb r) = NoChange) = (\<bar>queried_balance pb r\<bar> < 1 / 10 ^ 9)"
proof -
  obtain s1 where q: "get_wallet_balance_via_btcli pb cfg r s = (queried_balance pb r, s1)"
    using balance_value [of pb cfg r s]
    by (cases "get_wallet_balance_via_btcli pb cfg r s") simp
  have n: "notifications s1 = notifications s" and t: "trend_file s1 = None"
    using balance_notifications [of pb cfg r s] balance_trend_file [of pb cfg r s] q assms(2)
    by simp_all
  show ?thesis
    using assms(1) by (simp add: send_summary_embed_def q n t post_embed_def Let_def trend_of_def)
qed

text \<open>The first report of a wallet holding 5.\<close>

theorem first_report_trend_witness:
  "summary_webhook sample_cfg \<noteq> []
   \<and> trend_file sample_state = None
   \<and> notifications (send_summary_embed sample_pb sample_cfg empty_summary (Exited 0 ''5.0'' [])
        sample_state) =
       [SummaryEmbed \<lparr>rep_trades = 0, rep_subnets = 0, rep_add = 0, rep_rem = 0, rep_net = 0,
          rep_balance = 5, rep_trend = Up 5\<rparr>]
   \<and> trend_file (send_summary_embed sample_pb sample_cfg empty_summary (Exited 0 ''5.0'' [])
        sample_state) = Some 5"
proof -
  have h1: "summary_webhook sample_cfg \<noteq> []"
    by (simp add: sample_defs)
  have h2: "trend_file sample_state = None"
    by (simp add: sample_defs)
  show ?thesis
    using first_report_trend [OF h1 h2, of sample_pb empty_summary "Exited 0 ''5.0'' []"] h1 h2
    by (simp add: sample_defs trend_of_def)
qed

subsection \<open>The thresholds of the configuration\<close>

text \<open>
  C7, as stated, fails: answers with the low threshold 2 and the resume threshold 1 are
  saved as they are, and \<^verbatim>\<open>run\<close> enters its loop with that configuration and logs
  nothing about it.
\<close>

theorem inverted_thresholds_accepted:
  "resume_balance (setup_config flapping_answers) < low_balance (setup_config flapping_answers)
   \<and> run_start sample_pb (Some (setup_config flapping_answers)) False NotFound sample_state =
       (True, sample_state\<lparr>notifications := [SummaryScheduleNote]\<rparr>)"
  by (simp add: setup_config_def flapping_answers_def run_start_def notify_text_def
      sample_state_def Let_def)

text \<open>
  C7, amended. No check relates the two thresholds. \<^verbatim>\<open>setup\<close> saves each as it was
  entered (1.0 and 2.0 for empty answers), \<^verbatim>\<open>run\<close> enters its loop with every
  configuration that is present, and on its way to the loop it writes no line about
  the configuration (no line at all when no immediate summary is asked for).
\<close>

theorem thresholds_taken_as_entered:
  "low_balance (setup_config w) = (case in_low w of None \<Rightarrow> 1 | Some x \<Rightarrow> x)
   \<and> resume_balance (setup_config w) = (case in_resume w of None \<Rightarrow> 2 | Some x \<Rightarrow> x)
   \<and> fst (run_start pb (Some cfg) summary_now r disk)
   \<and> logfile (snd (run_start pb (Some cfg) False r disk)) = logfile disk"
  by (simp add: setup_config_def run_start_def Let_def notify_text_def)

subsection \<open>The state after the safety block\<close>

text \<open>
  What the balance query and the safety block leave behind, what a step does after
  them, and how a step of either channel comes down to \<open>mirror_delta\<close>.
\<close>

lemma balance_log:
  "logfile (snd (get_wallet_balance_via_btcli pb cfg r s)) =
     logfile s @ [LogFetching, LogCmd (BalanceCmd (btcli_path cfg) (my_wallet cfg) (network cfg))]
       @ (case r of
            Exited rc out err \<Rightarrow>
              (if out = [] then [] else [LogOut out]) @ (if err = [] then [] else [LogOut err])
          | TimedOut \<Rightarrow> [LogTimedOut]
          | NotFound \<Rightarrow> [LogNotFound])"
  by (cases r) (simp_all add: get_wallet_balance_via_btcli_def log_msg_def)

lemma mirror_delta_dry_log:
  "logfile (state_of (mirror_delta pb cfg True act n i hk d rp s)) =
     (if length (weights cfg) \<le> i then logfile s
      else
        (case sizing cfg d (weights cfg ! i) of
           Inl e \<Rightarrow> logfile s
         | Inr a \<Rightarrow>
             logfile (snd (get_wallet_balance_via_btcli pb cfg (fst rp) s))
               @ (if approves cfg (paused s) (queried_balance pb (fst rp))
                  then [LogDryRun act a n hk] else [])))"
  by (simp add: mirror_delta_eq Let_def safety_log log_msg_def split: sum.splits)

lemma balance_invocations:
  "invocations (snd (get_wallet_balance_via_btcli pb cfg r s)) =
     invocations s @ [BalanceCmd (btcli_path cfg) (my_wallet cfg) (network cfg)]"
  by (cases r) (simp_all add: get_wallet_balance_via_btcli_def log_msg_def)

lemma safety_invocations: "invocations (snd (safety cfg bal s)) = invocations s"
  by (simp add: safety_def Let_def notify_text_def)

lemma mirror_delta_dry_invocations:
  "invocations (state_of (mirror_delta pb cfg True act n i hk d rp s)) =
     (if length (weights cfg) \<le> i then invocations s
      else
        (case sizing cfg d (weights cfg ! i) of
           Inl e \<Rightarrow> invocations s
         | Inr a \<Rightarrow>
             invocations s @ [BalanceCmd (btcli_path cfg) (my_wallet cfg) (network cfg)]))"
  by (simp add: mirror_delta_eq Let_def safety_invocations balance_invocations log_msg_def
      split: sum.splits)

lemma mirror_delta_dropped_log:
  assumes "i < length (weights cfg)" and "sizing cfg d (weights cfg ! i) = Inr a"
    and "\<not> approves cfg (paused s) (queried_balance pb (fst rp))"
  shows "logfile (state_of (mirror_delta pb cfg dry act n i hk d rp s)) =
           logfile (snd (get_wallet_balance_via_btcli pb cfg (fst rp) s))"
  using assms by (simp add: mirror_delta_eq Let_def safety_log)

lemma mirror_delta_flag:
  assumes "i < length (weights cfg)" and "sizing cfg d (weights cfg ! i) = Inr a"
  shows "paused (state_of (mirror_delta pb cfg dry act n i hk d rp s)) =
           (\<not> approves cfg (paused s) (queried_balance pb (fst rp)))"
proof -
  have "paused (mirror_stake act n cfg a hk d r t) = paused t" for r t
    by (cases r) (simp_all add: mirror_stake_def log_msg_def send_trade_embed_def post_embed_def Let_def)
  then show ?thesis
    using assms
    by (simp add: mirror_delta_eq Let_def governed_paused log_msg_def log_trade_to_db_def)
qed

lemma governed_state:
  "snd (safety cfg (queried_balance pb r) (snd (get_wallet_balance_via_btcli pb cfg r s))) =
     s\<lparr>paused := \<not> approves cfg (paused s) (queried_balance pb r),
       invocations := invocations s @ [BalanceCmd (btcli_path cfg) (my_wallet cfg) (network cfg)],
       notifications := notifications s @ pause_notes cfg (paused s) (queried_balance pb r),
       logfile := logfile s @ balance_lines cfg r\<rparr>"
  by (cases r)
    (simp_all add: safety_def get_wallet_balance_via_btcli_def log_msg_def notify_text_def
      approves_def pause_notes_def balance_lines_def queried_balance_def Let_def)

lemma mirror_delta_dry_state:
  assumes "i < length (weights cfg)" and "sizing cfg d (weights cfg ! i) = Inr a"
  shows "mirror_delta pb cfg True act n i hk d rp s =
     Done (s\<lparr>paused := \<not> approves cfg (paused s) (queried_balance pb (fst rp)),
       invocations := invocations s @ [BalanceCmd (btcli_path cfg) (my_wallet cfg) (network cfg)],
       notifications := notifications s @ pause_notes cfg (paused s) (queried_balance pb (fst rp)),
       logfile := logfile s @ balance_lines cfg (fst rp)
         @ (if approves cfg (paused s) (queried_balance pb (fst rp))
            then [LogDryRun act a n hk] else [])\<rparr>)"
  using assms by (simp add: mirror_delta_eq Let_def governed_state log_msg_def)

lemma mirror_delta_trade:
  assumes "i < length (weights cfg)" and "sizing cfg d (weights cfg ! i) = Inr a" and "0 < a"
    and "approves cfg (paused s) (queried_balance pb (fst rp))"
  shows "trade_trace (state_of (mirror_delta pb cfg False act n i hk d rp s)) =
           traded cfg act n hk a d (queried_balance pb (fst rp)) s"
proof -
  let ?s2 = "snd (safety cfg (queried_balance pb (fst rp))
                (snd (get_wallet_balance_via_btcli pb cfg (fst rp) s)))"
  have "trade_trace ?s2 = trade_trace s"
    by (rule governed_trace)
  then have f: "db ?s2 = db s" "filter is_stake (invocations ?s2) = filter is_stake (invocations s)"
    "filter is_trade_notice (notifications ?s2) = filter is_trade_notice (notifications s)"
    "summary ?s2 = summary s"
    by (simp_all add: trade_trace_def)
  have m: "state_of (mirror_delta pb cfg False act n i hk d rp s) =
             log_trade_to_db act n hk a d (queried_balance pb (fst rp))
               (mirror_stake act n cfg a hk d (snd rp) ?s2)"
    using assms by (simp add: mirror_delta_eq Let_def)
  show ?thesis
    using assms(3)
    by (simp add: m trace_log_trade_to_db mirror_stake_trace mirror_stake_db f traded_def)
qed

lemma process_event_watched:
  assumes "hk \<in> set (hotkeys cfg)"
  shows "process_event pb cfg dry (act, n, hk, d) rp s =
           mirror_delta pb cfg dry act n (index_of (hotkeys cfg) hk) hk d rp s"
  using assms by (simp add: process_event_def)

lemma poll_hotkey_delta:
  assumes "hk \<in> set (mg_hotkeys mg)"
    and "index_of (mg_hotkeys mg) hk < length (mg_stake mg)"
    and "last_stakes s n = Some m" and "m hk = Some l"
    and "d = mg_stake mg ! index_of (mg_hotkeys mg) hk - l"
    and "\<not> \<bar>d\<bar> < 1 / 10 ^ 9"
  shows "poll_hotkey pb cfg dry n mg i hk rp s =
           mirror_delta pb cfg dry (if d > 0 then Add else Remove) n i hk d rp
             (s\<lparr>last_stakes := (last_stakes s)
                  (n \<mapsto> m(hk \<mapsto> mg_stake mg ! index_of (mg_hotkeys mg) hk))\<rparr>)"
  using assms by (simp add: poll_hotkey_def Let_def poll_action_def)

lemma traded_frame: "traded cfg act n hk a d bal (s\<lparr>last_stakes := b\<rparr>) = traded cfg act n hk a d bal s"
  by (simp add: traded_def)

lemma balance_lines_log:
  "logfile (snd (get_wallet_balance_via_btcli pb cfg r s)) = logfile s @ balance_lines cfg r"
  by (simp add: balance_log balance_lines_def)

lemmas more_sample_defs = tracked_state_def sample_mg_def fixed_cfg_def traded_def
  balance_lines_def pause_notes_def

subsection \<open>Sizing and the action of a trade\<close>

text \<open>
  C4, as stated for every detected delta, fails on the push channel: there the action
  is the kind of the event. An event of kind StakeRemoved with the amount 10 has
  \<open>d > 0\<close> and is mirrored as a removal, in the row, in the stake command, in the
  notification and in the counters.
\<close>

theorem push_remove_with_positive_delta:
  "(0::real) < 10
   \<and> trade_trace (state_of (process_event sample_pb sample_cfg False (Remove, 3, ''hkA'', 10)
        (sample_replies ''5.0'') sample_state)) =
       ([\<lparr>t_action = Remove, t_netuid = 3, t_hotkey = ''hkA'', t_amount = 5, t_delta = 10,
           t_balance = 5\<rparr>],
        [StakeCmd ''btcli'' Remove 3 ''mine'' 5 ''finney''],
        [TradeEmbed Remove 3 ''hkA'' 5 10],
        \<lparr>trades = 1, add_tao = 0, rem_tao = 5, subnets = {3}\<rparr>)"
  by (simp add: run_defs sample_defs trade_trace_def)

lemma channel_trade:
  assumes "i < length (weights cfg)"
    and "sizing cfg d (weights cfg ! i) = Inr a"
    and "0 < a"
    and "approves cfg (paused s) (queried_balance pb (fst rp))"
  shows "(trade_mode cfg = ''fixed'' \<longrightarrow>
            sizing cfg d w = sizing cfg d' w'
            \<and> (fixed_amount cfg = Some c \<longrightarrow> sizing cfg d w = Inr c)
            \<and> fixed_amount cfg = Some a)
         \<and> (trade_mode cfg = ''proportional'' \<longrightarrow>
            sizing cfg d w = Inr (\<bar>d\<bar> * w) \<and> a = \<bar>d\<bar> * (weights cfg ! i))
         \<and> (hk \<in> set (mg_hotkeys mg)
            \<and> index_of (mg_hotkeys mg) hk < length (mg_stake mg)
            \<and> last_stakes s n = Some m \<and> m hk = Some l
            \<and> d = mg_stake mg ! index_of (mg_hotkeys mg) hk - l
            \<and> \<not> \<bar>d\<bar> < 1 / 10 ^ 9 \<longrightarrow>
            trade_trace (state_of (poll_hotkey pb cfg False n mg i hk rp s)) =
              traded cfg (if d > 0 then Add else Remove) n hk a d (queried_balance pb (fst rp)) s)
         \<and> (hk \<in> set (hotkeys cfg) \<and> i = index_of (hotkeys cfg) hk \<longrightarrow>
            trade_trace (state_of (process_event pb cfg False (act, n, hk, d) rp s)) =
              traded cfg act n hk a d (queried_balance pb (fst rp)) s)"
proof (intro conjI impI)
  assume f: "trade_mode cfg = ''fixed''"
  then show "sizing cfg d w = sizing cfg d' w'"
    by (simp add: sizing_def)
  from f assms(2) show "fixed_amount cfg = Some a"
    by (simp add: sizing_def split: option.splits)
  assume "fixed_amount cfg = Some c"
  with f show "sizing cfg d w = Inr c"
    by (simp add: sizing_def)
next
  assume p: "trade_mode cfg = ''proportional''"
  then show "sizing cfg d w = Inr (\<bar>d\<bar> * w)"
    by (simp add: sizing_def)
  from p assms(2) show "a = \<bar>d\<bar> * (weights cfg ! i)"
    by (simp add: sizing_def)
next
  assume h: "hk \<in> set (mg_hotkeys mg)
            \<and> index_of (mg_hotkeys mg) hk < length (mg_stake mg)
            \<and> last_stakes s n = Some m \<and> m hk = Some l
            \<and> d = mg_stake mg ! index_of (mg_hotkeys mg) hk - l
            \<and> \<not> \<bar>d\<bar> < 1 / 10 ^ 9"
  let ?b = "(last_stakes s)(n \<mapsto> m(hk \<mapsto> mg_stake mg ! index_of (mg_hotkeys mg) hk))"
  from h have h1: "hk \<in> set (mg_hotkeys mg)"
    and h2: "index_of (mg_hotkeys mg) hk < length (mg_stake mg)"
    and h3: "last_stakes s n = Some m" and h4: "m hk = Some l"
    and h5: "d = mg_stake mg ! index_of (mg_hotkeys mg) hk - l"
    and h6: "\<not> \<bar>d\<bar> < 1 / 10 ^ 9"
    by blast+
  have r: "poll_hotkey pb cfg False n mg i hk rp s =
      mirror_delta pb cfg False (if d > 0 then Add else Remove) n i hk d rp (s\<lparr>last_stakes := ?b\<rparr>)"
    by (rule poll_hotkey_delta [OF h1 h2 h3 h4 h5 h6])
  have "approves cfg (paused (s\<lparr>last_stakes := ?b\<rparr>)) (queried_balance pb (fst rp))"
    using assms(4) by simp
  from mirror_delta_trade [OF assms(1,2,3) this]
  show "trade_trace (state_of (poll_hotkey pb cfg False n mg i hk rp s)) =
          traded cfg (if d > 0 then Add else Remove) n hk a d (queried_balance pb (fst rp)) s"
    by (simp only: r traded_frame)
next
  assume h: "hk \<in> set (hotkeys cfg) \<and> i = index_of (hotkeys cfg) hk"
  then have "process_event pb cfg False (act, n, hk, d) rp s =
               mirror_delta pb cfg False act n i hk d rp s"
    by (simp add: process_event_watched)
  with mirror_delta_trade [OF assms]
  show "trade_trace (state_of (process_event pb cfg False (act, n, hk, d) rp s)) =
          traded cfg act n hk a d (queried_balance pb (fst rp)) s"
    by simp
qed

text \<open>
  C4, amended. In mode \<open>fixed\<close> the sizing gives the configured constant whatever the
  delta and the weight are; in mode \<open>proportional\<close> it gives exactly \<open>\<bar>d\<bar> * w\<close>. When
  a step outside a dry run passes the safety block with the amount \<open>a > 0\<close> that the
  sizing gave for its delta and the weight of its hotkey, the trade made (row, stake
  command, notification, counters) carries that amount, and its action is: on the
  poll channel \<open>Add\<close> if \<open>d > 0\<close> and \<open>Remove\<close> otherwise; on the push channel the
  action of the event, whatever the sign of \<open>d\<close>.
\<close>

theorem sizing_and_action:
  "(trade_mode cfg = ''fixed'' \<longrightarrow>
      sizing cfg d w = sizing cfg d' w'
      \<and> (fixed_amount cfg = Some c \<longrightarrow> sizing cfg d w = Inr c))
   \<and> (trade_mode cfg = ''proportional'' \<longrightarrow> sizing cfg d w = Inr (\<bar>d\<bar> * w))
   \<and> (i < length (weights cfg)
      \<and> sizing cfg d (weights cfg ! i) = Inr a
      \<and> 0 < a
      \<and> approves cfg (paused s) (queried_balance pb (fst rp)) \<longrightarrow>
      (hk \<in> set (mg_hotkeys mg)
       \<and> index_of (mg_hotkeys mg) hk < length (mg_stake mg)
       \<and> last_stakes s n = Some m \<and> m hk = Some l
       \<and> d = mg_stake mg ! index_of (mg_hotkeys mg) hk - l
       \<and> \<not> \<bar>d\<bar> < 1 / 10 ^ 9 \<longrightarrow>
       trade_trace (state_of (poll_hotkey pb cfg False n mg i hk rp s)) =
         traded cfg (if d > 0 then Add else Remove) n hk a d (queried_balance pb (fst rp)) s)
      \<and> (hk \<in> set (hotkeys cfg) \<and> i = index_of (hotkeys cfg) hk \<longrightarrow>
       trade_trace (state_of (process_event pb cfg False (act, n, hk, d) rp s)) =
         traded cfg act n hk a d (queried_balance pb (fst rp)) s))"
proof (intro conjI impI)
  assume f: "trade_mode cfg = ''fixed''"
  then show "sizing cfg d w = sizing cfg d' w'"
    by (simp add: sizing_def)
  assume "fixed_amount cfg = Some c"
  with f show "sizing cfg d w = Inr c"
    by (simp add: sizing_def)
next
  assume "trade_mode cfg = ''proportional''"
  then show "sizing cfg d w = Inr (\<bar>d\<bar> * w)"
    by (simp add: sizing_def)
next
  assume h: "i < length (weights cfg)
      \<and> sizing cfg d (weights cfg ! i) = Inr a
      \<and> 0 < a
      \<and> approves cfg (paused s) (queried_balance pb (fst rp))"
    and c: "hk \<in> set (mg_hotkeys mg)
       \<and> index_of (mg_hotkeys mg) hk < length (mg_stake mg)
       \<and> last_stakes s n = Some m \<and> m hk = Some l
       \<and> d = mg_stake mg ! index_of (mg_hotkeys mg) hk - l
       \<and> \<not> \<bar>d\<bar> < 1 / 10 ^ 9"
  from h have h1: "i < length (weights cfg)" and h2: "sizing cfg d (weights cfg ! i) = Inr a"
    and h3: "0 < a" and h4: "approves cfg (paused s) (queried_balance pb (fst rp))"
    by blast+
  from channel_trade [OF h1 h2 h3 h4, of w d' w' c hk mg n m l act] c
  show "trade_trace (state_of (poll_hotkey pb cfg False n mg i hk rp s)) =
         traded cfg (if d > 0 then Add else Remove) n hk a d (queried_balance pb (fst rp)) s"
    by blast
next
  assume h: "i < length (weights cfg)
      \<and> sizing cfg d (weights cfg ! i) = Inr a
      \<and> 0 < a
      \<and> approves cfg (paused s) (queried_balance pb (fst rp))"
    and c: "hk \<in> set (hotkeys cfg) \<and> i = index_of (hotkeys cfg) hk"
  from h have h1: "i < length (weights cfg)" and h2: "sizing cfg d (weights cfg ! i) = Inr a"
    and h3: "0 < a" and h4: "approves cfg (paused s) (queried_balance pb (fst rp))"
    by blast+
  from channel_trade [OF h1 h2 h3 h4, of w d' w' c hk mg n m l act] c
  show "trade_trace (state_of (process_event pb cfg False (act, n, hk, d) rp s)) =
         traded cfg act n hk a d (queried_balance pb (fst rp)) s"
    by blast
qed

text \<open>
  Scenario A of the specification (weight 0.5, proportional, a polled stake going from
  100 to 110: amount 5, action \<open>Add\<close>), the same delta arriving as an event of kind
  StakeRemoved, and the fixed amount 0.1 for the deltas -3 and 10.
\<close>

theorem sizing_and_action_witness:
  "sizing sample_cfg 10 (1 / 2) = Inr 5
   \<and> sizing fixed_cfg (- 3) (1 / 2) = sizing fixed_cfg 10 7
   \<and> sizing fixed_cfg (- 3) (1 / 2) = Inr (1 / 10)
   \<and> trade_trace (state_of (poll_hotkey sample_pb sample_cfg False 3 (sample_mg 110) 0 ''hkA''
        (sample_replies ''5.0'') tracked_state)) =
       ([\<lparr>t_action = Add, t_netuid = 3, t_hotkey = ''hkA'', t_amount = 5, t_delta = 10,
           t_balance = 5\<rparr>],
        [StakeCmd ''btcli'' Add 3 ''mine'' 5 ''finney''],
        [TradeEmbed Add 3 ''hkA'' 5 10],
        \<lparr>trades = 1, add_tao = 5, rem_tao = 0, subnets = {3}\<rparr>)
   \<and> trade_trace (state_of (process_event sample_pb sample_cfg False (Remove, 3, ''hkA'', 10)
        (sample_replies ''5.0'') tracked_state)) =
       ([\<lparr>t_action = Remove, t_netuid = 3, t_hotkey = ''hkA'', t_amount = 5, t_delta = 10,
           t_balance = 5\<rparr>],
        [StakeCmd ''btcli'' Remove 3 ''mine'' 5 ''finney''],
        [TradeEmbed Remove 3 ''hkA'' 5 10],
        \<lparr>trades = 1, add_tao = 0, rem_tao = 5, subnets = {3}\<rparr>)"
proof -
  have p: "sizing sample_cfg 10 (1 / 2) = Inr 5
     \<and> trade_trace (state_of (poll_hotkey sample_pb sample_cfg False 3 (sample_mg 110) 0 ''hkA''
        (sample_replies ''5.0'') tracked_state)) =
       ([\<lparr>t_action = Add, t_netuid = 3, t_hotkey = ''hkA'', t_amount = 5, t_delta = 10,
           t_balance = 5\<rparr>],
        [StakeCmd ''btcli'' Add 3 ''mine'' 5 ''finney''],
        [TradeEmbed Add 3 ''hkA'' 5 10],
        \<lparr>trades = 1, add_tao = 5, rem_tao = 0, subnets = {3}\<rparr>)
     \<and> trade_trace (state_of (process_event sample_pb sample_cfg False (Remove, 3, ''hkA'', 10)
        (sample_replies ''5.0'') tracked_state)) =
       ([\<lparr>t_action = Remove, t_netuid = 3, t_hotkey = ''hkA'', t_amount = 5, t_delta = 10,
           t_balance = 5\<rparr>],
        [StakeCmd ''btcli'' Remove 3 ''mine'' 5 ''finney''],
        [TradeEmbed Remove 3 ''hkA'' 5 10],
        \<lparr>trades = 1, add_tao = 0, rem_tao = 5, subnets = {3}\<rparr>)"
    using sizing_and_action [where cfg = sample_cfg and d = 10 and w = "1 / 2" and i = 0
        and a = 5 and s = tracked_state and pb = sample_pb and rp = "sample_replies ''5.0''"
        and hk = "''hkA''" and mg = "sample_mg 110" and n = 3 and m = "[''hkA'' \<mapsto> 100]"
        and l = 100 and act = Remove]
    by (simp add: sample_defs more_sample_defs sizing_def)
  have f: "trade_mode fixed_cfg = ''fixed''"
    by (simp add: fixed_cfg_def)
  have c: "fixed_amount fixed_cfg = Some (1 / 10)"
    by (simp add: fixed_cfg_def sample_cfg_def)
  have q: "sizing fixed_cfg (- 3) (1 / 2) = sizing fixed_cfg 10 7
     \<and> sizing fixed_cfg (- 3) (1 / 2) = Inr (1 / 10)"
    using sizing_and_action [where cfg = fixed_cfg and d = "- 3" and w = "1 / 2" and d' = 10
        and w' = 7 and c = "1 / 10"] f c
    by blast
  from p q show ?thesis by blast
qed

subsection \<open>Dry run\<close>

text \<open>
  C8, as stated, fails: a dry-run step still runs the safety block before it looks at
  the flag. The tool is invoked for the balance query, the lines of the query are
  logged before the intended action, and a balance of 0.8 pauses the run and posts
  the notification.
\<close>

theorem dry_run_queries_balance:
  "invocations (state_of (poll_hotkey sample_pb fixed_cfg True 3 (sample_mg 97) 0 ''hkA''
        (sample_replies ''5.0'') tracked_state)) = [BalanceCmd ''btcli'' ''mine'' ''finney'']
   \<and> logfile (state_of (poll_hotkey sample_pb fixed_cfg True 3 (sample_mg 97) 0 ''hkA''
        (sample_replies ''5.0'') tracked_state)) =
       [LogFetching, LogCmd (BalanceCmd ''btcli'' ''mine'' ''finney''), LogOut ''5.0'',
        LogDryRun Remove (1 / 10) 3 ''hkA'']
   \<and> paused (state_of (process_event sample_pb fixed_cfg True sample_event
        (sample_replies ''0.8'') sample_state))
   \<and> notifications (state_of (process_event sample_pb fixed_cfg True sample_event
        (sample_replies ''0.8'') sample_state)) = [PausedNote (8 / 10) 1]"
  by (simp add: run_defs sample_defs more_sample_defs)

lemma dry_run_step_state:
  assumes "i < length (weights cfg)"
    and "sizing cfg d (weights cfg ! i) = Inr a"
    and "r = process_event pb cfg True (act, n, hk, d) rp s
           \<and> hk \<in> set (hotkeys cfg) \<and> i = index_of (hotkeys cfg) hk \<and> b = last_stakes s
         \<or> r = poll_hotkey pb cfg True n mg i hk rp s
           \<and> hk \<in> set (mg_hotkeys mg)
           \<and> index_of (mg_hotkeys mg) hk < length (mg_stake mg)
           \<and> last_stakes s n = Some m \<and> m hk = Some l
           \<and> d = mg_stake mg ! index_of (mg_hotkeys mg) hk - l
           \<and> \<not> \<bar>d\<bar> < 1 / 10 ^ 9
           \<and> act = (if d > 0 then Add else Remove)
           \<and> b = (last_stakes s)(n \<mapsto> m(hk \<mapsto> mg_stake mg ! index_of (mg_hotkeys mg) hk))"
  shows "r = Done (s\<lparr>last_stakes := b,
             paused := \<not> approves cfg (paused s) (queried_balance pb (fst rp)),
             invocations := invocations s
               @ [BalanceCmd (btcli_path cfg) (my_wallet cfg) (network cfg)],
             notifications := notifications s
               @ pause_notes cfg (paused s) (queried_balance pb (fst rp)),
             logfile := logfile s @ balance_lines cfg (fst rp)
               @ (if approves cfg (paused s) (queried_balance pb (fst rp))
                  then [LogDryRun act a n hk] else [])\<rparr>)
         \<and> trade_trace (state_of r) = trade_trace s
         \<and> trade_trace (run_loop pb cfg True inps s) = trade_trace s"
proof -
  have loop: "trade_trace (run_loop pb cfg True inps s) = trade_trace s"
    using run_loop_quiet [of True s inps pb cfg] by simp
  have step: "r = mirror_delta pb cfg True act n i hk d rp (s\<lparr>last_stakes := b\<rparr>)"
    using assms(3)
  proof (elim disjE conjE)
    assume "r = process_event pb cfg True (act, n, hk, d) rp s" "hk \<in> set (hotkeys cfg)"
      "i = index_of (hotkeys cfg) hk" "b = last_stakes s"
    then show ?thesis by (simp add: process_event_watched)
  next
    assume r: "r = poll_hotkey pb cfg True n mg i hk rp s"
      and h: "hk \<in> set (mg_hotkeys mg)" "index_of (mg_hotkeys mg) hk < length (mg_stake mg)"
        "last_stakes s n = Some m" "m hk = Some l"
        "d = mg_stake mg ! index_of (mg_hotkeys mg) hk - l" "\<not> \<bar>d\<bar> < 1 / 10 ^ 9"
      and a: "act = (if d > 0 then Add else Remove)"
      and b: "b = (last_stakes s)(n \<mapsto> m(hk \<mapsto> mg_stake mg ! index_of (mg_hotkeys mg) hk))"
    show ?thesis
      unfolding r a b by (rule poll_hotkey_delta [OF h])
  qed
  have eq: "r = Done (s\<lparr>last_stakes := b,
             paused := \<not> approves cfg (paused s) (queried_balance pb (fst rp)),
             invocations := invocations s
               @ [BalanceCmd (btcli_path cfg) (my_wallet cfg) (network cfg)],
             notifications := notifications s
               @ pause_notes cfg (paused s) (queried_balance pb (fst rp)),
             logfile := logfile s @ balance_lines cfg (fst rp)
               @ (if approves cfg (paused s) (queried_balance pb (fst rp))
                  then [LogDryRun act a n hk] else [])\<rparr>)"
    unfolding step by (simp add: mirror_delta_dry_state [OF assms(1,2)])
  have "trade_trace (state_of r) = trade_trace s"
    unfolding step by (simp add: mirror_delta_dry trace_last_stakes_update)
  with eq loop show ?thesis by blast
qed

text \<open>
  C8, amended. In dry-run mode no trade is made: through whole rounds of the loop the
  rows of the table, the stake commands given to the tool, the trade notifications and
  the counters stay as they were. A step of either channel that reaches the safety
  block ends, without raising, in the state it started from except for exactly this:
  the polled stake recorded as the baseline (poll channel only), the pause flag as the
  safety block sets it, the one balance query given to the tool, the pause or resume
  notification if there is one, and in the log the lines of the balance query followed
  by the line of the intended action when the safety block lets the step through.
\<close>

theorem dry_run_step:
  "trade_trace (run_loop pb cfg True inps s) = trade_trace s
   \<and> trade_trace (state_of (process_event pb cfg True ev rp s)) = trade_trace s
   \<and> trade_trace (state_of (poll_hotkey pb cfg True n mg i hk rp s)) = trade_trace s
   \<and> (i < length (weights cfg)
      \<and> sizing cfg d (weights cfg ! i) = Inr a
      \<and> (r = process_event pb cfg True (act, n, hk, d) rp s
           \<and> hk \<in> set (hotkeys cfg) \<and> i = index_of (hotkeys cfg) hk \<and> b = last_stakes s
         \<or> r = poll_hotkey pb cfg True n mg i hk rp s
           \<and> hk \<in> set (mg_hotkeys mg)
           \<and> index_of (mg_hotkeys mg) hk < length (mg_stake mg)
           \<and> last_stakes s n = Some m \<and> m hk = Some l
           \<and> d = mg_stake mg ! index_of (mg_hotkeys mg) hk - l
           \<and> \<not> \<bar>d\<bar> < 1 / 10 ^ 9
           \<and> act = (if d > 0 then Add else Remove)
           \<and> b = (last_stakes s)(n \<mapsto> m(hk \<mapsto> mg_stake mg ! index_of (mg_hotkeys mg) hk)))
      \<longrightarrow>
      r = Done (s\<lparr>last_stakes := b,
             paused := \<not> approves cfg (paused s) (queried_balance pb (fst rp)),
             invocations := invocations s
               @ [BalanceCmd (btcli_path cfg) (my_wallet cfg) (network cfg)],
             notifications := notifications s
               @ pause_notes cfg (paused s) (queried_balance pb (fst rp)),
             logfile := logfile s @ balance_lines cfg (fst rp)
               @ (if approves cfg (paused s) (queried_balance pb (fst rp))
                  then [LogDryRun act a n hk] else [])\<rparr>))"
proof (intro conjI impI)
  show "trade_trace (run_loop pb cfg True inps s) = trade_trace s"
    using run_loop_quiet [of True s inps pb cfg] by simp
  show "trade_trace (state_of (process_event pb cfg True ev rp s)) = trade_trace s"
    by (simp add: process_event_quiet)
  show "trade_trace (state_of (poll_hotkey pb cfg True n mg i hk rp s)) = trade_trace s"
    by (simp add: poll_hotkey_quiet)
next
  assume h: "i < length (weights cfg)
      \<and> sizing cfg d (weights cfg ! i) = Inr a
      \<and> (r = process_event pb cfg True (act, n, hk, d) rp s
           \<and> hk \<in> set (hotkeys cfg) \<and> i = index_of (hotkeys cfg) hk \<and> b = last_stakes s
         \<or> r = poll_hotkey pb cfg True n mg i hk rp s
           \<and> hk \<in> set (mg_hotkeys mg)
           \<and> index_of (mg_hotkeys mg) hk < length (mg_stake mg)
           \<and> last_stakes s n = Some m \<and> m hk = Some l
           \<and> d = mg_stake mg ! index_of (mg_hotkeys mg) hk - l
           \<and> \<not> \<bar>d\<bar> < 1 / 10 ^ 9
           \<and> act = (if d > 0 then Add else Remove)
           \<and> b = (last_stakes s)(n \<mapsto> m(hk \<mapsto> mg_stake mg ! index_of (mg_hotkeys mg) hk)))"
  then have h1: "i < length (weights cfg)" and h2: "sizing cfg d (weights cfg ! i) = Inr a"
    and h3: "r = process_event pb cfg True (act, n, hk, d) rp s
           \<and> hk \<in> set (hotkeys cfg) \<and> i = index_of (hotkeys cfg) hk \<and> b = last_stakes s
         \<or> r = poll_hotkey pb cfg True n mg i hk rp s
           \<and> hk \<in> set (mg_hotkeys mg)
           \<and> index_of (mg_hotkeys mg) hk < length (mg_stake mg)
           \<and> last_stakes s n = Some m \<and> m hk = Some l
           \<and> d = mg_stake mg ! index_of (mg_hotkeys mg) hk - l
           \<and> \<not> \<bar>d\<bar> < 1 / 10 ^ 9
           \<and> act = (if d > 0 then Add else Remove)
           \<and> b = (last_stakes s)(n \<mapsto> m(hk \<mapsto> mg_stake mg ! index_of (mg_hotkeys mg) hk))"
    by blast+
  from dry_run_step_state [OF h1 h2 h3, of "[]"]
  show "r = Done (s\<lparr>last_stakes := b,
             paused := \<not> approves cfg (paused s) (queried_balance pb (fst rp)),
             invocations := invocations s
               @ [BalanceCmd (btcli_path cfg) (my_wallet cfg) (network cfg)],
             notifications := notifications s
               @ pause_notes cfg (paused s) (queried_balance pb (fst rp)),
             logfile := logfile s @ balance_lines cfg (fst rp)
               @ (if approves cfg (paused s) (queried_balance pb (fst rp))
                  then [LogDryRun act a n hk] else [])\<rparr>)"
    by blast
qed

text \<open>
  Scenario C of the specification: a dry run, fixed amount 0.1, a polled stake going
  from 100 to 97; the log ends with the intended removal of 0.1. And an event met with
  a balance of 0.8: the run is paused and nothing is logged beyond the query. A whole
  round of the loop makes no trade.
\<close>

theorem dry_run_step_witness:
  "poll_hotkey sample_pb fixed_cfg True 3 (sample_mg 97) 0 ''hkA'' (sample_replies ''5.0'')
       tracked_state =
     Done (tracked_state\<lparr>last_stakes := [3 \<mapsto> [''hkA'' \<mapsto> 97]],
        invocations := [BalanceCmd ''btcli'' ''mine'' ''finney''],
        logfile := [LogFetching, LogCmd (BalanceCmd ''btcli'' ''mine'' ''finney''),
                    LogOut ''5.0'', LogDryRun Remove (1 / 10) 3 ''hkA'']\<rparr>)
   \<and> process_event sample_pb fixed_cfg True sample_event (sample_replies ''0.8'') tracked_state =
     Done (tracked_state\<lparr>paused := True,
        invocations := [BalanceCmd ''btcli'' ''mine'' ''finney''],
        notifications := [PausedNote (8 / 10) 1],
        logfile := [LogFetching, LogCmd (BalanceCmd ''btcli'' ''mine'' ''finney''),
                    LogOut ''0.8'']\<rparr>)
   \<and> trade_trace (run_loop sample_pb fixed_cfg True [sample_round] tracked_state) =
       ([], [], [], empty_summary)"
proof -
  have a: "poll_hotkey sample_pb fixed_cfg True 3 (sample_mg 97) 0 ''hkA'' (sample_replies ''5.0'')
       tracked_state =
     Done (tracked_state\<lparr>last_stakes := [3 \<mapsto> [''hkA'' \<mapsto> 97]],
        invocations := [BalanceCmd ''btcli'' ''mine'' ''finney''],
        logfile := [LogFetching, LogCmd (BalanceCmd ''btcli'' ''mine'' ''finney''),
                    LogOut ''5.0'', LogDryRun Remove (1 / 10) 3 ''hkA'']\<rparr>)
     \<and> trade_trace (run_loop sample_pb fixed_cfg True [sample_round] tracked_state) =
       ([], [], [], empty_summary)"
    using dry_run_step [where cfg = fixed_cfg and i = 0 and d = "- 3" and a = "1 / 10"
        and r = "poll_hotkey sample_pb fixed_cfg True 3 (sample_mg 97) 0 ''hkA''
                   (sample_replies ''5.0'') tracked_state"
        and pb = sample_pb and act = Remove and n = 3 and hk = "''hkA''"
        and rp = "sample_replies ''5.0''" and s = tracked_state
        and b = "[3 \<mapsto> [''hkA'' \<mapsto> 97]]" and mg = "sample_mg 97"
        and m = "[''hkA'' \<mapsto> 100]" and l = 100 and inps = "[sample_round]"]
    by (simp add: sample_defs more_sample_defs sizing_def trade_trace_def)
  have b: "process_event sample_pb fixed_cfg True sample_event (sample_replies ''0.8'') tracked_state =
     Done (tracked_state\<lparr>paused := True,
        invocations := [BalanceCmd ''btcli'' ''mine'' ''finney''],
        notifications := [PausedNote (8 / 10) 1],
        logfile := [LogFetching, LogCmd (BalanceCmd ''btcli'' ''mine'' ''finney''),
                    LogOut ''0.8'']\<rparr>)"
    using dry_run_step [where cfg = fixed_cfg and i = 0 and d = 10 and a = "1 / 10"
        and r = "process_event sample_pb fixed_cfg True sample_event (sample_replies ''0.8'')
                   tracked_state"
        and pb = sample_pb and act = Add and n = 3 and hk = "''hkA''"
        and rp = "sample_replies ''0.8''" and s = tracked_state
        and b = "last_stakes tracked_state"]
    by (simp add: sample_defs more_sample_defs sizing_def)
  from a b show ?thesis by blast
qed

subsection \<open>The step that pauses and the step that resumes\<close>

text \<open>
  C10, as stated, fails when the resume threshold is under the low threshold, which
  no check excludes: with low 2, resume 1 and a balance of 1.5 the same step pauses,
  resumes and makes its trade.
\<close>

theorem pausing_intent_executed:
  "\<not> paused sample_state
   \<and> queried_balance sample_pb (Exited 0 ''1.5'' []) < low_balance flapping_cfg
   \<and> notifications (state_of (process_event sample_pb flapping_cfg False sample_event
        (sample_replies ''1.5'') sample_state)) =
       [PausedNote (3 / 2) 2, ResumedNote (3 / 2) 1, TradeEmbed Add 3 ''hkA'' 5 10]
   \<and> db (state_of (process_event sample_pb flapping_cfg False sample_event
        (sample_replies ''1.5'') sample_state)) =
       [\<lparr>t_action = Add, t_netuid = 3, t_hotkey = ''hkA'', t_amount = 5, t_delta = 10,
          t_balance = 3 / 2\<rparr>]"
  by (simp add: run_defs sample_defs flapping_cfg_def)

text \<open>
  C10, amended. When the resume threshold is not under the low threshold, for a step of
  either channel whose amount is above zero: the step whose balance query pauses the
  run (not paused on entry, balance under the low threshold) is dropped, with no
  trade, nothing in the log beyond the lines of the query, and the run left paused;
  the step whose balance query resumes the run (paused on entry, balance at or above
  the resume threshold) is executed in that same step: the run is active again and,
  outside a dry run, the stake command is given to the tool, the notification posted,
  the counters incremented and the row written, while a dry run logs the intended
  action.
\<close>

theorem pause_drops_resume_executes:
  assumes "low_balance cfg \<le> resume_balance cfg"
    and "i < length (weights cfg)"
    and "sizing cfg d (weights cfg ! i) = Inr a"
    and "0 < a"
    and "r = process_event pb cfg dry (act, n, hk, d) rp s
           \<and> hk \<in> set (hotkeys cfg) \<and> i = index_of (hotkeys cfg) hk
         \<or> r = poll_hotkey pb cfg dry n mg i hk rp s
           \<and> hk \<in> set (mg_hotkeys mg)
           \<and> index_of (mg_hotkeys mg) hk < length (mg_stake mg)
           \<and> last_stakes s n = Some m \<and> m hk = Some l
           \<and> d = mg_stake mg ! index_of (mg_hotkeys mg) hk - l
           \<and> \<not> \<bar>d\<bar> < 1 / 10 ^ 9
           \<and> act = (if d > 0 then Add else Remove)"
  shows "(\<not> paused s \<and> queried_balance pb (fst rp) < low_balance cfg \<longrightarrow>
            paused (state_of r)
            \<and> trade_trace (state_of r) = trade_trace s
            \<and> logfile (state_of r) = logfile s @ balance_lines cfg (fst rp))
         \<and> (paused s \<and> resume_balance cfg \<le> queried_balance pb (fst rp) \<longrightarrow>
            \<not> paused (state_of r)
            \<and> (if dry
                then trade_trace (state_of r) = trade_trace s
                     \<and> logfile (state_of r) =
                         logfile s @ balance_lines cfg (fst rp) @ [LogDryRun act a n hk]
                else trade_trace (state_of r) =
                       traded cfg act n hk a d (queried_balance pb (fst rp)) s))"
proof -
  obtain s1 where step: "r = mirror_delta pb cfg dry act n i hk d rp s1"
    and fr: "paused s1 = paused s" "trade_trace s1 = trade_trace s" "logfile s1 = logfile s"
      "traded cfg act n hk a d (queried_balance pb (fst rp)) s1 =
         traded cfg act n hk a d (queried_balance pb (fst rp)) s"
    using assms(5)
  proof (elim disjE conjE)
    assume "r = process_event pb cfg dry (act, n, hk, d) rp s" "hk \<in> set (hotkeys cfg)"
      "i = index_of (hotkeys cfg) hk"
    then have "r = mirror_delta pb cfg dry act n i hk d rp s"
      by (simp add: process_event_watched)
    then show ?thesis
      by (rule that) simp_all
  next
    assume r: "r = poll_hotkey pb cfg dry n mg i hk rp s"
      and h: "hk \<in> set (mg_hotkeys mg)" "index_of (mg_hotkeys mg) hk < length (mg_stake mg)"
        "last_stakes s n = Some m" "m hk = Some l"
        "d = mg_stake mg ! index_of (mg_hotkeys mg) hk - l" "\<not> \<bar>d\<bar> < 1 / 10 ^ 9"
      and a: "act = (if d > 0 then Add else Remove)"
    have "r = mirror_delta pb cfg dry act n i hk d rp
            (s\<lparr>last_stakes := (last_stakes s)
                 (n \<mapsto> m(hk \<mapsto> mg_stake mg ! index_of (mg_hotkeys mg) hk))\<rparr>)"
      unfolding r a by (rule poll_hotkey_delta [OF h])
    then show ?thesis
      by (rule that) (simp_all add: trace_last_stakes_update traded_frame)
  qed
  let ?bal = "queried_balance pb (fst rp)"
  show ?thesis
  proof (intro conjI impI)
    assume h: "\<not> paused s \<and> ?bal < low_balance cfg"
    with assms(1) fr(1) have na: "\<not> approves cfg (paused s1) ?bal"
      by (simp add: approves_def)
    show "paused (state_of r)"
      unfolding step using na by (simp add: mirror_delta_flag [OF assms(2,3)])
    show "trade_trace (state_of r) = trade_trace s"
      unfolding step using mirror_delta_dropped [OF na] fr(2) by simp
    show "logfile (state_of r) = logfile s @ balance_lines cfg (fst rp)"
      unfolding step using mirror_delta_dropped_log [OF assms(2,3) na] fr(3)
      by (simp add: balance_lines_log)
  next
    assume h: "paused s \<and> resume_balance cfg \<le> ?bal"
    with fr(1) have ap: "approves cfg (paused s1) ?bal"
      by (simp add: approves_def)
    show "\<not> paused (state_of r)"
      unfolding step using ap by (simp add: mirror_delta_flag [OF assms(2,3)])
    show "if dry
          then trade_trace (state_of r) = trade_trace s
               \<and> logfile (state_of r) =
                   logfile s @ balance_lines cfg (fst rp) @ [LogDryRun act a n hk]
          else trade_trace (state_of r) = traded cfg act n hk a d ?bal s"
    proof (cases dry)
      case True
      have "trade_trace (state_of (mirror_delta pb cfg True act n i hk d rp s1)) = trade_trace s"
        using fr(2) by (simp add: mirror_delta_dry)
      moreover have "logfile (state_of (mirror_delta pb cfg True act n i hk d rp s1)) =
                       logfile s @ balance_lines cfg (fst rp) @ [LogDryRun act a n hk]"
        using assms(2,3) ap fr(3) by (simp add: mirror_delta_dry_log balance_lines_log)
      ultimately show ?thesis
        using True step by simp
    next
      case False
      with mirror_delta_trade [OF assms(2,3,4) ap] fr(4) step show ?thesis by simp
    qed
  qed
qed

text \<open>
  Scenario B of the specification: low 1, resume 2. An event met with a balance of 0.8
  pauses the run and is dropped; a polled delta met with a balance of 2.5 while paused
  resumes the run and is mirrored.
\<close>

theorem pause_drops_resume_executes_witness:
  "paused (state_of (process_event sample_pb sample_cfg False sample_event
        (sample_replies ''0.8'') tracked_state))
   \<and> trade_trace (state_of (process_event sample_pb sample_cfg False sample_event
        (sample_replies ''0.8'') tracked_state)) = ([], [], [], empty_summary)
   \<and> \<not> paused (state_of (poll_hotkey sample_pb sample_cfg False 3 (sample_mg 110) 0 ''hkA''
        (sample_replies ''2.5'') (tracked_state\<lparr>paused := True\<rparr>)))
   \<and> trade_trace (state_of (poll_hotkey sample_pb sample_cfg False 3 (sample_mg 110) 0 ''hkA''
        (sample_replies ''2.5'') (tracked_state\<lparr>paused := True\<rparr>))) =
       ([\<lparr>t_action = Add, t_netuid = 3, t_hotkey = ''hkA'', t_amount = 5, t_delta = 10,
           t_balance = 5 / 2\<rparr>],
        [StakeCmd ''btcli'' Add 3 ''mine'' 5 ''finney''],
        [TradeEmbed Add 3 ''hkA'' 5 10],
        \<lparr>trades = 1, add_tao = 5, rem_tao = 0, subnets = {3}\<rparr>)"
proof -
  have h1: "low_balance sample_cfg \<le> resume_balance sample_cfg"
    by (simp add: sample_defs)
  have h2: "0 < length (weights sample_cfg)"
    by (simp add: sample_defs)
  have h3: "sizing sample_cfg 10 (weights sample_cfg ! 0) = Inr 5"
    by (simp add: sample_defs sizing_def)
  have h4: "(0::real) < 5"
    by simp
  have push: "process_event sample_pb sample_cfg False sample_event (sample_replies ''0.8'')
                tracked_state =
              process_event sample_pb sample_cfg False (Add, 3, ''hkA'', 10) (sample_replies ''0.8'')
                tracked_state
              \<and> ''hkA'' \<in> set (hotkeys sample_cfg) \<and> 0 = index_of (hotkeys sample_cfg) ''hkA''"
    by (simp add: sample_defs)
  have poll: "poll_hotkey sample_pb sample_cfg False 3 (sample_mg 110) 0 ''hkA''
                (sample_replies ''2.5'') (tracked_state\<lparr>paused := True\<rparr>) =
              poll_hotkey sample_pb sample_cfg False 3 (sample_mg 110) 0 ''hkA''
                (sample_replies ''2.5'') (tracked_state\<lparr>paused := True\<rparr>)
              \<and> ''hkA'' \<in> set (mg_hotkeys (sample_mg 110))
              \<and> index_of (mg_hotkeys (sample_mg 110)) ''hkA'' < length (mg_stake (sample_mg 110))
              \<and> last_stakes (tracked_state\<lparr>paused := True\<rparr>) 3 = Some [''hkA'' \<mapsto> 100]
              \<and> [''hkA'' \<mapsto> 100::real] ''hkA'' = Some 100
              \<and> 10 = mg_stake (sample_mg 110) ! index_of (mg_hotkeys (sample_mg 110)) ''hkA'' - 100
              \<and> \<not> \<bar>10 :: real\<bar> < 1 / 10 ^ 9
              \<and> Add = (if (10 :: real) > 0 then Add else Remove)"
    by (simp add: more_sample_defs)
  show ?thesis
    using pause_drops_resume_executes [OF h1 h2 h3 h4 disjI1, OF push]
      pause_drops_resume_executes [OF h1 h2 h3 h4 disjI2, OF poll]
    by (simp add: sample_defs more_sample_defs trade_trace_def)
qed

end
